theory Spec2Isabelle
  imports Complex_Main "HOL-Library.AList"
begin

section \<open>JavaScript values\<close>

text \<open>
  A JavaScript number is modelled as an exact real or one of the three IEEE specials.
  Rounding to the nearest double and the sign of zero are not modelled: every finite
  result is the exact quotient, sum or product. Division follows IEEE where the divisor
  is zero: a positive dividend gives \<open>Infinity\<close>, a negative one \<open>-Infinity\<close>, zero gives
  \<open>NaN\<close>; nothing raises.
\<close>

datatype jsnum = Fin real | PInf | NInf | NaN

fun js_neg :: "jsnum \<Rightarrow> jsnum" where
  "js_neg (Fin a) = Fin (- a)"
| "js_neg PInf = NInf"
| "js_neg NInf = PInf"
| "js_neg NaN = NaN"

fun js_add :: "jsnum \<Rightarrow> jsnum \<Rightarrow> jsnum" where
  "js_add (Fin a) (Fin b) = Fin (a + b)"
| "js_add (Fin a) PInf = PInf"
| "js_add (Fin a) NInf = NInf"
| "js_add PInf (Fin b) = PInf"
| "js_add PInf PInf = PInf"
| "js_add PInf NInf = NaN"
| "js_add NInf (Fin b) = NInf"
| "js_add NInf NInf = NInf"
| "js_add NInf PInf = NaN"
| "js_add NaN y = NaN"
| "js_add x NaN = NaN"

definition js_sub :: "jsnum \<Rightarrow> jsnum \<Rightarrow> jsnum" where
  "js_sub x y = js_add x (js_neg y)"

text \<open>The sign of an infinite product or quotient: \<open>pos\<close> tells whether it is positive.\<close>

definition inf_of :: "bool \<Rightarrow> jsnum" where
  "inf_of pos = (if pos then PInf else NInf)"

fun js_mul :: "jsnum \<Rightarrow> jsnum \<Rightarrow> jsnum" where
  "js_mul (Fin a) (Fin b) = Fin (a * b)"
| "js_mul (Fin a) PInf = (if a = 0 then NaN else inf_of (0 < a))"
| "js_mul (Fin a) NInf = (if a = 0 then NaN else inf_of (a < 0))"
| "js_mul PInf (Fin b) = (if b = 0 then NaN else inf_of (0 < b))"
| "js_mul NInf (Fin b) = (if b = 0 then NaN else inf_of (b < 0))"
| "js_mul PInf PInf = PInf"
| "js_mul PInf NInf = NInf"
| "js_mul NInf PInf = NInf"
| "js_mul NInf NInf = PInf"
| "js_mul NaN y = NaN"
| "js_mul x NaN = NaN"

fun js_div :: "jsnum \<Rightarrow> jsnum \<Rightarrow> jsnum" where
  "js_div (Fin a) (Fin b) =
     (if b \<noteq> 0 then Fin (a / b) else if a = 0 then NaN else inf_of (0 < a))"
| "js_div (Fin a) PInf = Fin 0"
| "js_div (Fin a) NInf = Fin 0"
| "js_div PInf (Fin b) = inf_of (0 \<le> b)"
| "js_div NInf (Fin b) = inf_of (b < 0)"
| "js_div PInf PInf = NaN"
| "js_div PInf NInf = NaN"
| "js_div NInf PInf = NaN"
| "js_div NInf NInf = NaN"
| "js_div NaN y = NaN"
| "js_div x NaN = NaN"

text \<open>
  The values the program stores in its objects: \<open>undefined\<close>, numbers and strings.
  An object is an association list in insertion order, as \<open>JSON.stringify\<close> walks it.
\<close>

datatype jsval = Undefined | Num jsnum | Str string

type_synonym obj = "(string \<times> jsval) list"

text \<open>\<open>o[k]\<close>: a missing key reads as \<open>undefined\<close>.\<close>

definition get :: "obj \<Rightarrow> string \<Rightarrow> jsval" where
  "get ob k = (case map_of ob k of None \<Rightarrow> Undefined | Some v \<Rightarrow> v)"

text \<open>
  \<open>{...o, k1: v1, ..., kn: vn}\<close>: the spread copies the own keys of \<open>o\<close> in order; each
  later key overwrites in place or is appended.
\<close>

definition spread :: "obj \<Rightarrow> obj \<Rightarrow> obj" where
  "spread ob kvs = fold (\<lambda>(k, v). AList.update k v) kvs ob"

text \<open>\<open>delete o[k]\<close>.\<close>

definition delete_key :: "string \<Rightarrow> obj \<Rightarrow> obj" where
  "delete_key k ob = AList.delete k ob"

datatype error =
    TypeError
  | ExecError nat    \<comment> \<open>\<open>execSync\<close>: the command exited with a non-zero status\<close>
  | SpawnError       \<comment> \<open>\<open>execSync\<close>: the command could not be launched\<close>
  | FsError          \<comment> \<open>a synchronous \<open>fs\<close> call or \<open>sha256File\<close> threw\<close>

section \<open>The environment\<close>

text \<open>
  What a command does once the shell runs it: it exits with a status and its captured
  standard output, it cannot be launched, or it never exits.
\<close>

datatype proc = Exited nat string | NotLaunched | NeverExits

datatype event =
    Exec string            \<comment> \<open>a command handed to \<open>execSync\<close>\<close>
  | Hash string            \<comment> \<open>a path handed to \<open>sha256File\<close>\<close>
  | Convert string string  \<comment> \<open>\<open>gm(file).write(ppmFile, ...)\<close>\<close>
  | Copy string string     \<comment> \<open>\<open>fs.copyFileSync(src, dst)\<close>\<close>

text \<open>
  Everything outside the program is a parameter: the operating system over a state
  \<open>'w\<close>, and the built-in conversions between strings and numbers, whose grammar is
  not modelled.
\<close>

record 'w env =
  dateNow :: "'w \<Rightarrow> int"                                \<comment> \<open>\<open>Date.now()\<close>, in milliseconds\<close>
  run :: "string \<Rightarrow> 'w \<Rightarrow> proc \<times> 'w"                    \<comment> \<open>the shell running a command\<close>
  statSize :: "string \<Rightarrow> 'w \<Rightarrow> nat option"              \<comment> \<open>\<open>fs.statSync(p).size\<close>, \<open>None\<close> when it throws\<close>
  sha256 :: "string \<Rightarrow> 'w \<Rightarrow> string option"             \<comment> \<open>\<open>sha256File(p)\<close>, \<open>None\<close> when it throws\<close>
  linkFile :: "string \<Rightarrow> string \<Rightarrow> 'w \<Rightarrow> 'w option"     \<comment> \<open>\<open>fs.linkSync\<close>, \<open>None\<close> when it throws\<close>
  copyFile :: "string \<Rightarrow> string \<Rightarrow> 'w \<Rightarrow> 'w option"     \<comment> \<open>\<open>fs.copyFileSync\<close>, \<open>None\<close> when it throws\<close>
  gmWrite :: "string \<Rightarrow> string \<Rightarrow> 'w \<Rightarrow> 'w"             \<comment> \<open>starting \<open>gm(file).write(ppmFile, cb)\<close>\<close>
  parseInt :: "string \<Rightarrow> jsnum"                        \<comment> \<open>\<open>parseInt(s)\<close>\<close>
  strToNumber :: "string \<Rightarrow> jsnum"                     \<comment> \<open>\<open>ToNumber\<close> of a string\<close>
  numToString :: "jsnum \<Rightarrow> string"                     \<comment> \<open>\<open>ToString\<close> of a number\<close>
  dirname :: string                                    \<comment> \<open>\<open>__dirname\<close>\<close>

text \<open>The running program's view: the state of the world and what it has asked of it.\<close>

record 'w sys =
  world :: 'w
  trace :: "event list"

definition to_number :: "'w env \<Rightarrow> jsval \<Rightarrow> jsnum" where
  "to_number e v = (case v of Undefined \<Rightarrow> NaN | Num n \<Rightarrow> n | Str s \<Rightarrow> strToNumber e s)"

definition to_str :: "'w env \<Rightarrow> jsval \<Rightarrow> string" where
  "to_str e v = (case v of Undefined \<Rightarrow> ''undefined'' | Num n \<Rightarrow> numToString e n | Str s \<Rightarrow> s)"

text \<open>
  \<open>a + b\<close> where \<open>b\<close> is a number: concatenation when \<open>a\<close> is a string, numeric addition
  otherwise.
\<close>

definition js_plus :: "'w env \<Rightarrow> jsval \<Rightarrow> jsnum \<Rightarrow> jsval" where
  "js_plus e a b =
     (case a of Str s \<Rightarrow> Str (s @ numToString e b) | _ \<Rightarrow> Num (js_add (to_number e a) b))"

text \<open>
  \<open>path.join\<close> of strings, as far as the program needs it: the segments joined by the
  separator. Normalisation of \<open>.\<close> and \<open>..\<close> segments is not modelled; the joined paths
  only name files to the environment.
\<close>

definition path_join :: "string list \<Rightarrow> string" where
  "path_join segs = foldr (\<lambda>a b. if b = [] then a else a @ ''/'' @ b) segs []"

section \<open>Running external commands\<close>

text \<open>
  \<open>execSync(comand, { encoding: "utf8" })\<close>. No call of the program passes a \<open>timeout\<close>,
  so the call returns only when the child has exited: a command that never exits blocks
  it for ever, which is the value \<open>None\<close>. A non-zero status or a failed launch is thrown.
\<close>

definition execSync :: "'w env \<Rightarrow> string \<Rightarrow> 'w sys \<Rightarrow> ((error + string) \<times> 'w sys) option" where
  "execSync e cmd s =
     (case run e cmd (world s) of
        (NeverExits, w) \<Rightarrow> None
      | (NotLaunched, w) \<Rightarrow> Some (Inl SpawnError, \<lparr>world = w, trace = trace s @ [Exec cmd]\<rparr>)
      | (Exited c out, w) \<Rightarrow>
          Some (if c = 0 then Inr out else Inl (ExecError c),
                \<lparr>world = w, trace = trace s @ [Exec cmd]\<rparr>))"

record runres =
  time :: int
  result :: "error + string"

definition runSync :: "'w env \<Rightarrow> string \<Rightarrow> 'w sys \<Rightarrow> (runres \<times> 'w sys) option" where
  "runSync e comand s =
     (let start = dateNow e (world s) in
      case execSync e comand s of
        None \<Rightarrow> None
      | Some (Inr out, s') \<Rightarrow>
          (let end = dateNow e (world s') in
           Some (\<lparr>time = end - start, result = Inr out\<rparr>, s'))
      | Some (Inl err, s') \<Rightarrow> Some (\<lparr>time = - 1, result = Inl err\<rparr>, s'))"

text \<open>
  \<open>for (let i = 0; i < 3; i++) { const { time, result } = runSync(cmd); times.push(time) }\<close>
  with \<open>n\<close> iterations left.
\<close>

fun runTimes :: "nat \<Rightarrow> 'w env \<Rightarrow> string \<Rightarrow> 'w sys \<Rightarrow> (int list \<times> 'w sys) option" where
  "runTimes 0 e cmd s = Some ([], s)"
| "runTimes (Suc n) e cmd s =
     (case runSync e cmd s of
        None \<Rightarrow> None
      | Some (r, s') \<Rightarrow>
          (case runTimes n e cmd s' of
             None \<Rightarrow> None
           | Some (ts, s'') \<Rightarrow> Some (time r # ts, s'')))"

text \<open>\<open>Math.min(...times)\<close>; of no argument it is \<open>Infinity\<close>.\<close>

fun math_min :: "int list \<Rightarrow> jsnum" where
  "math_min [] = PInf"
| "math_min (t # ts) = Fin (of_int (fold min ts t))"

section \<open>Strings and paths\<close>

definition quoted :: "string \<Rightarrow> string" where
  "quoted s = CHR 0x22 # s @ [CHR 0x22]"

text \<open>\<open>s.toLowerCase()\<close> on the ASCII letters.\<close>

definition lower_char :: "char \<Rightarrow> char" where
  "lower_char c =
     (let n = (of_char c :: nat) in if 65 \<le> n \<and> n \<le> 90 then char_of (n + 32) else c)"

definition toLowerCase :: "string \<Rightarrow> string" where
  "toLowerCase s = map lower_char s"

text \<open>
  \<open>path.basename\<close> and \<open>path.extname\<close> for POSIX paths that do not end in the
  separator, as the paths of a directory walk are: the last segment, and what follows
  its last dot unless that dot is the segment's first character or the segment is \<open>..\<close>.
\<close>

definition basename :: "string \<Rightarrow> string" where
  "basename p = rev (takeWhile (\<lambda>c. c \<noteq> CHR ''/'') (rev p))"

definition extname :: "string \<Rightarrow> string" where
  "extname p =
     (let b = basename p;
          ext = rev (takeWhile (\<lambda>c. c \<noteq> CHR ''.'') (rev b));
          stem = take (length b - length ext - 1) b
      in if CHR ''.'' \<notin> set b \<or> stem = [] \<or> b = ''..'' then [] else CHR ''.'' # ext)"

text \<open>
  \<open>path.join\<close> validates its arguments: one that is not a string makes it throw a
  \<open>TypeError\<close>.
\<close>

fun strings_of :: "jsval list \<Rightarrow> string list option" where
  "strings_of [] = Some []"
| "strings_of (Str s # vs) = map_option ((#) s) (strings_of vs)"
| "strings_of (v # vs) = None"

definition path_join_js :: "jsval list \<Rightarrow> error + string" where
  "path_join_js vs = (case strings_of vs of None \<Rightarrow> Inl TypeError | Some ss \<Rightarrow> Inr (path_join ss))"

text \<open>
  \<open>v.ppm\<close>: reading a property of \<open>undefined\<close> throws; a string or a number has no
  property of that name, so the read gives \<open>undefined\<close>.
\<close>

definition prop_ppm :: "jsval \<Rightarrow> error + jsval" where
  "prop_ppm v = (case v of Undefined \<Rightarrow> Inl TypeError | _ \<Rightarrow> Inr Undefined)"

text \<open>\<open>a === b\<close>.\<close>

fun strict_eq :: "jsval \<Rightarrow> jsval \<Rightarrow> bool" where
  "strict_eq Undefined Undefined = True"
| "strict_eq (Num a) (Num b) = (a = b \<and> a \<noteq> NaN)"
| "strict_eq (Str a) (Str b) = (a = b)"
| "strict_eq a b = False"

section \<open>Collecting the files (utils.js)\<close>

text \<open>
  The directory walk \<open>traverse\<close> is not modelled: its result, the list of paths, is the
  input of \<open>cleanList\<close>.
\<close>

definition validFileExtensions :: "string list" where
  "validFileExtensions =
     [''.jpg'', ''.jpeg'', ''.png'', ''.gif'', ''.bmp'',
      ''.tiff'', ''.tif'', ''.webp'', ''.svg'', ''.psd'', ''.ai'', ''.eps'', ''.svg'',
      ''.ppm'', ''.pgm'', ''.pbm'', ''.pnm'', ''.pam'', ''.pfm'', ''.pcx'', ''.xwd'']"

definition valid_ext :: "string \<Rightarrow> bool" where
  "valid_ext file \<longleftrightarrow> toLowerCase (extname file) \<in> set validFileExtensions"

definition logged :: "event \<Rightarrow> 'w sys \<Rightarrow> 'w sys" where
  "logged ev s = s\<lparr>trace := trace s @ [ev]\<rparr>"

text \<open>The test of \<open>acc.find\<close> in the reducer: the same size and the same hash.\<close>

definition same_key :: "nat \<Rightarrow> string \<Rightarrow> obj \<Rightarrow> bool" where
  "same_key fileSize sha ent \<longleftrightarrow>
     strict_eq (get ent ''originalSize'') (Num (Fin (real fileSize))) \<and>
     strict_eq (get ent ''originalsha256'') (Str sha)"

text \<open>A path has the dedup key \<open>(n, h)\<close>: its size is \<open>n\<close> and its hash is \<open>h\<close>.\<close>

definition has_key :: "'w env \<Rightarrow> 'w \<Rightarrow> nat \<Rightarrow> string \<Rightarrow> string \<Rightarrow> bool" where
  "has_key e w n h c \<longleftrightarrow> statSize e c w = Some n \<and> sha256 e c w = Some h"

text \<open>The object literal \<open>entry\<close> of the reducer.\<close>

definition dedup_entry :: "string \<Rightarrow> nat \<Rightarrow> string \<Rightarrow> obj" where
  "dedup_entry cur fileSize sha =
     [(''fullname'', Str cur),
      (''filename'', Str (basename cur)),
      (''originalSize'', Num (Fin (real fileSize))),
      (''originalsha256'', Str sha)]"

text \<open>
  The reducer of \<open>cleanList\<close>. It reads the size and hashes the file before anything
  else; either call may throw, which ends the whole reduction.
\<close>

definition deduper :: "'w env \<Rightarrow> obj list \<Rightarrow> string \<Rightarrow> 'w sys \<Rightarrow> (error + obj list) \<times> 'w sys" where
  "deduper e acc cur s =
     (case statSize e cur (world s) of
        None \<Rightarrow> (Inl FsError, s)
      | Some fileSize \<Rightarrow>
          (case sha256 e cur (world s) of
             None \<Rightarrow> (Inl FsError, logged (Hash cur) s)
           | Some sha \<Rightarrow>
               (let s' = logged (Hash cur) s in
                if fileSize = 0 then (Inr acc, s')
                else
                  (let entry = dedup_entry cur fileSize sha
                   in case find (same_key fileSize sha) acc of
                        Some existing \<Rightarrow> (Inr acc, s')
                      | None \<Rightarrow> (Inr (acc @ [entry]), s')))))"

text \<open>\<open>xs.reduce(deduper, acc)\<close>.\<close>

fun reduce_deduper :: "'w env \<Rightarrow> obj list \<Rightarrow> string list \<Rightarrow> 'w sys \<Rightarrow> (error + obj list) \<times> 'w sys" where
  "reduce_deduper e acc [] s = (Inr acc, s)"
| "reduce_deduper e acc (cur # rest) s =
     (case deduper e acc cur s of
        (Inl err, s') \<Rightarrow> (Inl err, s')
      | (Inr acc', s') \<Rightarrow> reduce_deduper e acc' rest s')"

definition cleanList :: "'w env \<Rightarrow> string list \<Rightarrow> 'w sys \<Rightarrow> (error + obj list) \<times> 'w sys" where
  "cleanList e files s = reduce_deduper e [] (filter valid_ext files) s"

text \<open>
  A loop whose body may throw: the first throw ends it; otherwise the results are
  collected in order.
\<close>

fun mapE :: "('a \<Rightarrow> 's \<Rightarrow> (error + 'b) \<times> 's) \<Rightarrow> 'a list \<Rightarrow> 's \<Rightarrow> (error + 'b list) \<times> 's" where
  "mapE f [] s = (Inr [], s)"
| "mapE f (x # xs) s =
     (case f x s of
        (Inl err, s') \<Rightarrow> (Inl err, s')
      | (Inr y, s') \<Rightarrow>
          (case mapE f xs s' of
             (Inl err, s'') \<Rightarrow> (Inl err, s'')
           | (Inr ys, s'') \<Rightarrow> (Inr (y # ys), s'')))"

definition imgFolder :: "'w env \<Rightarrow> string" where
  "imgFolder e = path_join [dirname e, ''img'']"

definition ppmTempFolder :: "'w env \<Rightarrow> string" where
  "ppmTempFolder e = path_join [dirname e, ''tmp'', ''ppm'']"

definition copyFileSync :: "'w env \<Rightarrow> string \<Rightarrow> string \<Rightarrow> 'w sys \<Rightarrow> (error + unit) \<times> 'w sys" where
  "copyFileSync e src dst s =
     (case copyFile e src dst (world s) of
        None \<Rightarrow> (Inl FsError, logged (Copy src dst) s)
      | Some w \<Rightarrow> (Inr (), \<lparr>world = w, trace = trace s @ [Copy src dst]\<rparr>))"

text \<open>
  The body of the loop of \<open>toTestbed\<close>: a hard link, a copy when linking throws, then
  \<open>delete image.fullname\<close>.
\<close>

definition placeImage :: "'w env \<Rightarrow> obj \<Rightarrow> 'w sys \<Rightarrow> (error + obj) \<times> 'w sys" where
  "placeImage e img s =
     (case path_join_js [Str (imgFolder e), get img ''filename''] of
        Inl err \<Rightarrow> (Inl err, s)
      | Inr newFile \<Rightarrow>
          (case get img ''fullname'' of
             Str src \<Rightarrow>
               (case linkFile e src newFile (world s) of
                  Some w \<Rightarrow> (Inr (delete_key ''fullname'' img), s\<lparr>world := w\<rparr>)
                | None \<Rightarrow>
                    (case copyFileSync e src newFile s of
                       (Inl err, s') \<Rightarrow> (Inl err, s')
                     | (Inr u, s') \<Rightarrow> (Inr (delete_key ''fullname'' img), s')))
           | _ \<Rightarrow> (Inl TypeError, s)))"

definition toTestbed :: "'w env \<Rightarrow> obj list \<Rightarrow> 'w sys \<Rightarrow> (error + obj list) \<times> 'w sys" where
  "toTestbed e files s = mapE (placeImage e) files s"

text \<open>
  \<open>convert\<close> starts the converter and returns at once; the callback of \<open>write\<close> runs
  later, outside the synchronous run modelled here.
\<close>

definition convert :: "'w env \<Rightarrow> string \<Rightarrow> 'w sys \<Rightarrow> (error + unit) \<times> 'w sys" where
  "convert e file s =
     (let ppmFile = path_join [ppmTempFolder e, basename file @ ''.ppm'']
      in (Inr (), \<lparr>world = gmWrite e file ppmFile (world s),
                   trace = trace s @ [Convert file ppmFile]\<rparr>))"

text \<open>
  The body of the loop of \<open>normalizeToPPM\<close>. In the branch for a file that is already
  PPM the destination is \<open>path.join(ppmTempFolder, file.filename.ppm)\<close>.
\<close>

definition normalizeOne :: "'w env \<Rightarrow> obj \<Rightarrow> 'w sys \<Rightarrow> (error + unit) \<times> 'w sys" where
  "normalizeOne e file s =
     (case path_join_js [Str (imgFolder e), get file ''filename''] of
        Inl err \<Rightarrow> (Inl err, s)
      | Inr currentFile \<Rightarrow>
          if toLowerCase (extname (to_str e (get file ''filename''))) = ''.ppm'' then
            (case prop_ppm (get file ''filename'') of
               Inl err \<Rightarrow> (Inl err, s)
             | Inr p \<Rightarrow>
                 (case path_join_js [Str (ppmTempFolder e), p] of
                    Inl err \<Rightarrow> (Inl err, s)
                  | Inr newFile \<Rightarrow> copyFileSync e currentFile newFile s))
          else convert e currentFile s)"

definition normalizeToPPM :: "'w env \<Rightarrow> obj list \<Rightarrow> 'w sys \<Rightarrow> (error + obj list) \<times> 'w sys" where
  "normalizeToPPM e files s =
     (case mapE (normalizeOne e) files s of
        (Inl err, s') \<Rightarrow> (Inl err, s')
      | (Inr us, s') \<Rightarrow> (Inr files, s'))"

definition ppmStatistics :: "'w env \<Rightarrow> obj \<Rightarrow> 'w sys \<Rightarrow> (error + obj) \<times> 'w sys" where
  "ppmStatistics e file s =
     (let ppmFile = path_join [ppmTempFolder e, to_str e (get file ''filename'') @ ''.ppm'']
      in case statSize e ppmFile (world s) of
           None \<Rightarrow> (Inl FsError, s)
         | Some sz \<Rightarrow>
             (case sha256 e ppmFile (world s) of
                None \<Rightarrow> (Inl FsError, logged (Hash ppmFile) s)
              | Some sha \<Rightarrow>
                  (Inr (spread file [(''ppmFile'', Str ppmFile),
                                     (''ppmSize'', Num (Fin (real sz))),
                                     (''ppmsha256'', Str sha)]),
                   logged (Hash ppmFile) s)))"

definition getPPMStatistics :: "'w env \<Rightarrow> obj list \<Rightarrow> 'w sys \<Rightarrow> (error + obj list) \<times> 'w sys" where
  "getPPMStatistics e files s = mapE (ppmStatistics e) files s"

text \<open>\<open>getAllFiles\<close>, from the result of the directory walk on.\<close>

definition getAllFiles :: "'w env \<Rightarrow> string list \<Rightarrow> 'w sys \<Rightarrow> (error + obj list) \<times> 'w sys" where
  "getAllFiles e walked s =
     (case cleanList e walked s of
        (Inl err, s1) \<Rightarrow> (Inl err, s1)
      | (Inr cleaned, s1) \<Rightarrow>
          (case toTestbed e cleaned s1 of
             (Inl err, s2) \<Rightarrow> (Inl err, s2)
           | (Inr placed, s2) \<Rightarrow>
               (case normalizeToPPM e placed s2 of
                  (Inl err, s3) \<Rightarrow> (Inl err, s3)
                | (Inr normalized, s3) \<Rightarrow> getPPMStatistics e normalized s3)))"

section \<open>The benchmark (index.js)\<close>

definition lea0_4_comp :: "'w env \<Rightarrow> string" where
  "lea0_4_comp e = path_join [dirname e, ''bin'', ''v0.4'', ''clea.exe'']"

definition lea0_5_comp :: "'w env \<Rightarrow> string" where
  "lea0_5_comp e = path_join [dirname e, ''bin'', ''v0.5b'', ''clea.exe'']"

definition lea0_4_decomp :: "'w env \<Rightarrow> string" where
  "lea0_4_decomp e = path_join [dirname e, ''bin'', ''v0.4'', ''dlea.exe'']"

definition lea0_5_decomp :: "'w env \<Rightarrow> string" where
  "lea0_5_decomp e = path_join [dirname e, ''bin'', ''v0.5b'', ''dlea.exe'']"

text \<open>The command line of one compressor or decompressor run.\<close>

definition command :: "bool \<Rightarrow> string \<Rightarrow> string \<Rightarrow> string \<Rightarrow> string" where
  "command isWindows bin inp outp =
     (if \<not> isWindows then ''WINEDEBUG=-all wine'' else []) @ '' '' @ bin @ '' '' @ inp @ '' '' @
     outp @ '' '' @ (if \<not> isWindows then ''2>/dev/null'' else [])"

text \<open>
  The size of an artifact: \<open>wc -c\<close> and the text before the first blank on Windows, which
  stays a string; \<open>du -b | cut -f1\<close> without its last character through \<open>parseInt\<close>
  elsewhere. This \<open>execSync\<close> is outside any \<open>try\<close>.
\<close>

definition sizeOf :: "'w env \<Rightarrow> bool \<Rightarrow> string \<Rightarrow> 'w sys \<Rightarrow> ((error + jsval) \<times> 'w sys) option" where
  "sizeOf e isWindows outp s =
     (case execSync e (if isWindows then ''wc -c '' @ outp
                       else ''du -b '' @ outp @ '' | cut -f1'') s of
        None \<Rightarrow> None
      | Some (Inl err, s') \<Rightarrow> Some (Inl err, s')
      | Some (Inr txt, s') \<Rightarrow>
          Some (Inr (if isWindows then Str (takeWhile (\<lambda>c. c \<noteq> CHR '' '') txt)
                     else Num (parseInt e (butlast txt))), s'))"

text \<open>\<open>xs.findIndex(P)\<close>; \<open>None\<close> stands for \<open>-1\<close>.\<close>

fun findIndex :: "('a \<Rightarrow> bool) \<Rightarrow> 'a list \<Rightarrow> nat option" where
  "findIndex P [] = None"
| "findIndex P (x # xs) = (if P x then Some 0 else map_option Suc (findIndex P xs))"

definition same_sha :: "obj \<Rightarrow> obj \<Rightarrow> bool" where
  "same_sha file reportFile \<longleftrightarrow>
     strict_eq (get file ''originalsha256'') (get reportFile ''originalsha256'')"

definition speed :: "'w env \<Rightarrow> jsval \<Rightarrow> jsnum \<Rightarrow> jsnum" where
  "speed e bytes minTime = js_div (to_number e bytes) (js_div minTime (Fin 1000))"

definition ratio :: "'w env \<Rightarrow> jsval \<Rightarrow> jsval \<Rightarrow> jsnum" where
  "ratio e part whole = js_mul (js_div (to_number e part) (to_number e whole)) (Fin 100)"

definition lea4_path :: "'w env \<Rightarrow> obj \<Rightarrow> string" where
  "lea4_path e file =
     path_join [dirname e, ''tmp'', ''lea4'', quoted (to_str e (get file ''filename'') @ ''.ppm.lea4'')]"

definition lea5_path :: "'w env \<Rightarrow> obj \<Rightarrow> string" where
  "lea5_path e file =
     path_join [dirname e, ''tmp'', ''lea5'', quoted (to_str e (get file ''filename'') @ ''.ppm.lea5'')]"

definition restored_path :: "'w env \<Rightarrow> string \<Rightarrow> obj \<Rightarrow> string" where
  "restored_path e folder file =
     path_join [dirname e, ''tmp'', folder, quoted (to_str e (get file ''filename'') @ ''.ppm.restored'')]"

text \<open>
  The keys each callback writes, in the order of its object literal. \<open>old\<close> is
  \<open>report[index]\<close> as it was before the assignment.
\<close>

definition fields_c04 :: "'w env \<Rightarrow> obj \<Rightarrow> jsnum \<Rightarrow> jsval \<Rightarrow> obj" where
  "fields_c04 e file minTime compressedSize =
     (let ppmSize = get file ''ppmSize''; originalSize = get file ''originalSize''
      in [(''cTime0.4'', Num minTime),
          (''cSpeed0.4'', Num (speed e ppmSize minTime)),
          (''cSize0.4'', compressedSize),
          (''cRatio0.4'', Num (ratio e compressedSize originalSize)),
          (''cRatioPPM0.4'', Num (ratio e compressedSize ppmSize))])"

definition fields_c05 :: "'w env \<Rightarrow> obj \<Rightarrow> obj \<Rightarrow> jsnum \<Rightarrow> jsval \<Rightarrow> obj" where
  "fields_c05 e file old minTime compressedSize =
     (let ppmSize = get file ''ppmSize''; originalSize = get file ''originalSize'';
          cRatio = ratio e compressedSize originalSize
      in [(''cTime0.5'', Num minTime),
          (''cSpeed0.5'', Num (speed e ppmSize minTime)),
          (''cSize0.5'', compressedSize),
          (''cRatio0.5'', Num cRatio),
          (''cRatioPPM0.5'', Num (ratio e compressedSize ppmSize)),
          (''cTimeDiff'', Num (js_sub minTime (to_number e (get old ''cTime0.4'')))),
          (''cRatioDiff'', Num (js_sub cRatio (to_number e (get old ''cRatio0.4''))))])"

definition fields_d04 :: "'w env \<Rightarrow> obj \<Rightarrow> jsnum \<Rightarrow> jsval \<Rightarrow> obj" where
  "fields_d04 e old minTime decompressedSize =
     [(''dTime0.4'', Num minTime),
      (''dSpeed0.4'', Num (speed e decompressedSize minTime)),
      (''roundTrip0.4'', js_plus e (get old ''cTime0.4'') minTime)]"

definition fields_d05 :: "'w env \<Rightarrow> obj \<Rightarrow> jsnum \<Rightarrow> jsval \<Rightarrow> obj" where
  "fields_d05 e old minTime decompressedSize =
     (let roundTrip = js_plus e (get old ''cTime0.5'') minTime
      in [(''dTime0.5'', Num minTime),
          (''dSpeed0.5'', Num (speed e decompressedSize minTime)),
          (''dTimeDiff'', Num (js_sub minTime (to_number e (get old ''dTime0.4'')))),
          (''roundTrip0.5'', roundTrip),
          (''roundTripDiff'',
             Num (js_sub (to_number e roundTrip) (to_number e (get old ''roundTrip0.4''))))])"

text \<open>
  The four callbacks of \<open>allFiles.forEach(async file => ...)\<close>. None of them awaits, so
  each runs to its end before the next file; what it throws rejects its promise and
  leaves the report as it was. A callback that blocks for ever is \<open>None\<close>. Where
  \<open>findIndex\<close> finds no record, reading a key of \<open>report[-1]\<close> throws.
\<close>

definition cmd_c04 :: "'w env \<Rightarrow> bool \<Rightarrow> obj \<Rightarrow> string" where
  "cmd_c04 e isWindows file =
     command isWindows (lea0_4_comp e) (quoted (to_str e (get file ''ppmFile''))) (lea4_path e file)"

definition cmd_c05 :: "'w env \<Rightarrow> bool \<Rightarrow> obj \<Rightarrow> string" where
  "cmd_c05 e isWindows file =
     command isWindows (lea0_5_comp e) (quoted (to_str e (get file ''ppmFile''))) (lea5_path e file)"

definition cmd_d04 :: "'w env \<Rightarrow> bool \<Rightarrow> obj \<Rightarrow> string" where
  "cmd_d04 e isWindows file =
     command isWindows (lea0_4_decomp e) (lea4_path e file) (restored_path e ''restored4'' file)"

definition cmd_d05 :: "'w env \<Rightarrow> bool \<Rightarrow> obj \<Rightarrow> string" where
  "cmd_d05 e isWindows file =
     command isWindows (lea0_5_decomp e) (lea5_path e file) (restored_path e ''restored5'' file)"

fun compress04 :: "'w env \<Rightarrow> bool \<Rightarrow> obj \<Rightarrow> obj list \<times> 'w sys \<Rightarrow> (obj list \<times> 'w sys) option" where
  "compress04 e isWindows file (report, s) =
     (case runTimes 3 e (cmd_c04 e isWindows file) s of
        None \<Rightarrow> None
      | Some (timings, s1) \<Rightarrow>
          (let minTime = math_min timings
           in case sizeOf e isWindows (lea4_path e file) s1 of
                None \<Rightarrow> None
              | Some (Inl err, s2) \<Rightarrow> Some (report, s2)
              | Some (Inr compressedSize, s2) \<Rightarrow>
                  Some (report @ [spread file (fields_c04 e file minTime compressedSize)], s2)))"

fun compress05 :: "'w env \<Rightarrow> bool \<Rightarrow> obj \<Rightarrow> obj list \<times> 'w sys \<Rightarrow> (obj list \<times> 'w sys) option" where
  "compress05 e isWindows file (report, s) =
     (case runTimes 3 e (cmd_c05 e isWindows file) s of
        None \<Rightarrow> None
      | Some (timings, s1) \<Rightarrow>
          (let minTime = math_min timings
           in case sizeOf e isWindows (lea5_path e file) s1 of
                None \<Rightarrow> None
              | Some (Inl err, s2) \<Rightarrow> Some (report, s2)
              | Some (Inr compressedSize, s2) \<Rightarrow>
                  (case findIndex (same_sha file) report of
                     None \<Rightarrow> Some (report, s2)
                   | Some index \<Rightarrow>
                       (let old = report ! index
                        in Some (report[index :=
                                   spread old (fields_c05 e file old minTime compressedSize)],
                                 s2)))))"

fun decompress04 :: "'w env \<Rightarrow> bool \<Rightarrow> obj \<Rightarrow> obj list \<times> 'w sys \<Rightarrow> (obj list \<times> 'w sys) option" where
  "decompress04 e isWindows file (report, s) =
     (case runTimes 3 e (cmd_d04 e isWindows file) s of
        None \<Rightarrow> None
      | Some (timings, s1) \<Rightarrow>
          (let minTime = math_min timings
           in case sizeOf e isWindows (restored_path e ''restored4'' file) s1 of
                None \<Rightarrow> None
              | Some (Inl err, s2) \<Rightarrow> Some (report, s2)
              | Some (Inr decompressedSize, s2) \<Rightarrow>
                  (case findIndex (same_sha file) report of
                     None \<Rightarrow> Some (report, s2)
                   | Some index \<Rightarrow>
                       (let old = report ! index
                        in Some (report[index :=
                                   spread old (fields_d04 e old minTime decompressedSize)],
                                 s2)))))"

fun decompress05 :: "'w env \<Rightarrow> bool \<Rightarrow> obj \<Rightarrow> obj list \<times> 'w sys \<Rightarrow> (obj list \<times> 'w sys) option" where
  "decompress05 e isWindows file (report, s) =
     (case runTimes 3 e (cmd_d05 e isWindows file) s of
        None \<Rightarrow> None
      | Some (timings, s1) \<Rightarrow>
          (let minTime = math_min timings
           in case sizeOf e isWindows (restored_path e ''restored5'' file) s1 of
                None \<Rightarrow> None
              | Some (Inl err, s2) \<Rightarrow> Some (report, s2)
              | Some (Inr decompressedSize, s2) \<Rightarrow>
                  (case findIndex (same_sha file) report of
                     None \<Rightarrow> Some (report, s2)
                   | Some index \<Rightarrow>
                       (let old = report ! index
                        in Some (report[index :=
                                   delete_key ''ppmFile''
                                     (spread old (fields_d05 e old minTime decompressedSize))],
                                 s2)))))"

fun forEach :: "('a \<Rightarrow> 'st \<Rightarrow> 'st option) \<Rightarrow> 'a list \<Rightarrow> 'st \<Rightarrow> 'st option" where
  "forEach f [] st = Some st"
| "forEach f (x # xs) st = (case f x st of None \<Rightarrow> None | Some st' \<Rightarrow> forEach f xs st')"

text \<open>The four loops of \<open>processEverything\<close>, from the empty report.\<close>

definition benchmark :: "'w env \<Rightarrow> bool \<Rightarrow> obj list \<Rightarrow> 'w sys \<Rightarrow> (obj list \<times> 'w sys) option" where
  "benchmark e isWindows allFiles s =
     (case forEach (compress04 e isWindows) allFiles ([], s) of
        None \<Rightarrow> None
      | Some st1 \<Rightarrow>
          (case forEach (compress05 e isWindows) allFiles st1 of
             None \<Rightarrow> None
           | Some st2 \<Rightarrow>
               (case forEach (decompress04 e isWindows) allFiles st2 of
                  None \<Rightarrow> None
                | Some st3 \<Rightarrow> forEach (decompress05 e isWindows) allFiles st3)))"

text \<open>
  \<open>JSON.stringify\<close> as a document: a key whose value is \<open>undefined\<close> is left out, a
  number that is not finite is written \<open>null\<close>.
\<close>

datatype json = JNull | JNumber real | JString string | JObject "(string \<times> json) list"
  | JArray "json list"

definition json_of_val :: "jsval \<Rightarrow> json option" where
  "json_of_val v =
     (case v of
        Undefined \<Rightarrow> None
      | Num n \<Rightarrow> Some (case n of Fin r \<Rightarrow> JNumber r | _ \<Rightarrow> JNull)
      | Str s \<Rightarrow> Some (JString s))"

definition json_of_obj :: "obj \<Rightarrow> json" where
  "json_of_obj ob = JObject (List.map_filter (\<lambda>(k, v). map_option (Pair k) (json_of_val v)) ob)"

definition stringify :: "obj list \<Rightarrow> json" where
  "stringify report = JArray (map json_of_obj report)"

text \<open>
  \<open>processEverything\<close>: \<open>Inl\<close> when \<open>getAllFiles\<close> throws, so that nothing is written;
  otherwise the document handed to \<open>fs.writeFileSync\<close>. \<open>processReport\<close> is the report
  array just before it is serialised.
\<close>

definition processReport :: "'w env \<Rightarrow> bool \<Rightarrow> string list \<Rightarrow> 'w sys \<Rightarrow> ((error + obj list) \<times> 'w sys) option" where
  "processReport e isWindows walked s =
     (case getAllFiles e walked s of
        (Inl err, s') \<Rightarrow> Some (Inl err, s')
      | (Inr allFiles, s') \<Rightarrow>
          (case benchmark e isWindows allFiles s' of
             None \<Rightarrow> None
           | Some (report, s'') \<Rightarrow> Some (Inr report, s'')))"

definition processEverything :: "'w env \<Rightarrow> bool \<Rightarrow> string list \<Rightarrow> 'w sys \<Rightarrow> ((error + json) \<times> 'w sys) option" where
  "processEverything e isWindows walked s =
     (case processReport e isWindows walked s of
        None \<Rightarrow> None
      | Some (Inl err, s') \<Rightarrow> Some (Inl err, s')
      | Some (Inr report, s') \<Rightarrow> Some (Inr (stringify report), s'))"

subsection \<open>The dependency checks at start-up\<close>

text \<open>
  \<open>execSync(cmd, callback)\<close>: the function in the place of the options is never called.
  The call returns the output as a \<open>Buffer\<close> or throws; at the top level of the module
  nothing catches the throw.
\<close>

datatype probe = JFalse | Buffer string

fun truthy :: "probe \<Rightarrow> bool" where
  "truthy JFalse = False"
| "truthy (Buffer b) = True"

datatype outcome =
    Uncaught error            \<comment> \<open>an exception left the module\<close>
  | Exit nat                  \<comment> \<open>\<open>process.exit(n)\<close>\<close>
  | Ran "error + json"        \<comment> \<open>\<open>processEverything()\<close> was called and settled\<close>

definition haveGm :: "'w env \<Rightarrow> bool \<Rightarrow> 'w sys \<Rightarrow> ((error + probe) \<times> 'w sys) option" where
  "haveGm e isWindows s =
     (case execSync e ((if isWindows then ''gm.exe'' else ''gm'') @ '' version'') s of
        None \<Rightarrow> None
      | Some (Inl err, s') \<Rightarrow> Some (Inl err, s')
      | Some (Inr out, s') \<Rightarrow> Some (Inr (Buffer out), s'))"

definition haveWine :: "'w env \<Rightarrow> bool \<Rightarrow> 'w sys \<Rightarrow> ((error + probe) \<times> 'w sys) option" where
  "haveWine e isWindows s =
     (if isWindows then Some (Inr JFalse, s)
      else case execSync e ''wine --version'' s of
             None \<Rightarrow> None
           | Some (Inl err, s') \<Rightarrow> Some (Inl err, s')
           | Some (Inr out, s') \<Rightarrow> Some (Inr (Buffer out), s'))"

definition main :: "'w env \<Rightarrow> bool \<Rightarrow> string list \<Rightarrow> 'w sys \<Rightarrow> (outcome \<times> 'w sys) option" where
  "main e isWindows walked s =
     (case haveGm e isWindows s of
        None \<Rightarrow> None
      | Some (Inl err, s1) \<Rightarrow> Some (Uncaught err, s1)
      | Some (Inr gm, s1) \<Rightarrow>
          (case haveWine e isWindows s1 of
             None \<Rightarrow> None
           | Some (Inl err, s2) \<Rightarrow> Some (Uncaught err, s2)
           | Some (Inr wine, s2) \<Rightarrow>
               if \<not> truthy gm then Some (Exit 2, s2)
               else if \<not> isWindows \<and> \<not> truthy wine then Some (Exit 2, s2)
               else (case processEverything e isWindows walked s2 of
                       None \<Rightarrow> None
                     | Some (r, s3) \<Rightarrow> Some (Ran r, s3))))"

section \<open>Properties of the records of the report\<close>

text \<open>\<open>Object.keys(o)\<close>, and the keys of the file objects that \<open>getAllFiles\<close> returns.\<close>

definition keys_of :: "obj \<Rightarrow> string list" where
  "keys_of ob = map fst ob"

definition base_keys :: "string list" where
  "base_keys = [''filename'', ''originalSize'', ''originalsha256'', ''ppmFile'', ''ppmSize'',
                ''ppmsha256'']"

text \<open>The keys that each of the four callbacks writes.\<close>

definition c04_keys :: "string list" where
  "c04_keys = [''cTime0.4'', ''cSpeed0.4'', ''cSize0.4'', ''cRatio0.4'', ''cRatioPPM0.4'']"

definition c05_keys :: "string list" where
  "c05_keys = [''cTime0.5'', ''cSpeed0.5'', ''cSize0.5'', ''cRatio0.5'', ''cRatioPPM0.5'',
               ''cTimeDiff'', ''cRatioDiff'']"

definition d04_keys :: "string list" where
  "d04_keys = [''dTime0.4'', ''dSpeed0.4'', ''roundTrip0.4'']"

definition d05_keys :: "string list" where
  "d05_keys = [''dTime0.5'', ''dSpeed0.5'', ''dTimeDiff'', ''roundTrip0.5'', ''roundTripDiff'']"

text \<open>
  What holds of a record of the report: each difference it carries is the Lea 0.5 value
  minus the Lea 0.4 value of the same record, and once it carries the Lea 0.5
  decompression time it has lost its \<open>ppmFile\<close>.
\<close>

definition diffs_c :: "'w env \<Rightarrow> obj \<Rightarrow> bool" where
  "diffs_c e r \<longleftrightarrow>
     (''cTimeDiff'' \<in> set (keys_of r) \<longrightarrow>
        get r ''cTimeDiff'' =
          Num (js_sub (to_number e (get r ''cTime0.5'')) (to_number e (get r ''cTime0.4''))) \<and>
        get r ''cRatioDiff'' =
          Num (js_sub (to_number e (get r ''cRatio0.5'')) (to_number e (get r ''cRatio0.4''))))"

definition diffs_d :: "'w env \<Rightarrow> obj \<Rightarrow> bool" where
  "diffs_d e r \<longleftrightarrow>
     (''dTimeDiff'' \<in> set (keys_of r) \<longrightarrow>
        get r ''dTimeDiff'' =
          Num (js_sub (to_number e (get r ''dTime0.5'')) (to_number e (get r ''dTime0.4''))) \<and>
        get r ''roundTripDiff'' =
          Num (js_sub (to_number e (get r ''roundTrip0.5''))
                 (to_number e (get r ''roundTrip0.4''))))"

definition no_path :: "obj \<Rightarrow> bool" where
  "no_path r \<longleftrightarrow> (''dTime0.5'' \<in> set (keys_of r) \<longrightarrow> ''ppmFile'' \<notin> set (keys_of r))"

text \<open>
  What holds of every record after each of the four loops, whatever the commands did.
\<close>

definition inv1 :: "obj \<Rightarrow> bool" where
  "inv1 r \<longleftrightarrow> set (keys_of r) \<subseteq> set (base_keys @ c04_keys)"

definition inv2 :: "'w env \<Rightarrow> obj \<Rightarrow> bool" where
  "inv2 e r \<longleftrightarrow> set (keys_of r) \<subseteq> set (base_keys @ c04_keys @ c05_keys) \<and> diffs_c e r"

definition inv3 :: "'w env \<Rightarrow> obj \<Rightarrow> bool" where
  "inv3 e r \<longleftrightarrow>
     set (keys_of r) \<subseteq> set (base_keys @ c04_keys @ c05_keys @ d04_keys) \<and> diffs_c e r"

definition inv4 :: "'w env \<Rightarrow> obj \<Rightarrow> bool" where
  "inv4 e r \<longleftrightarrow>
     set (keys_of r) \<subseteq> set (base_keys @ c04_keys @ c05_keys @ d04_keys @ d05_keys) \<and>
     diffs_c e r \<and> diffs_d e r \<and> no_path r"

text \<open>The keys of a serialised record, and reading one of them.\<close>

definition json_keys :: "json \<Rightarrow> string list" where
  "json_keys d = (case d of JObject kvs \<Rightarrow> map fst kvs | _ \<Rightarrow> [])"









section \<open>A concrete environment\<close>

text \<open>
  A small world to run the program in: a clock and a script that gives, for each command
  in turn, what the command does and how long it takes. Once the script is used up every
  command exits with status 0 and prints \<open>4096\<close>. Sizes and hashes come from a table.
\<close>

type_synonym demo_world = "int \<times> (proc \<times> int) list"

definition demo_run :: "string \<Rightarrow> demo_world \<Rightarrow> proc \<times> demo_world" where
  "demo_run cmd w =
     (case snd w of
        [] \<Rightarrow> (Exited 0 ''4096 '', w)
      | (p, d) # rest \<Rightarrow> (p, (fst w + d, rest)))"

definition demo_table :: "(string \<times> nat \<times> string) list" where
  "demo_table =
     [(''/in/a.png'', 10, ''h1''),
      (''/in/b.png'', 10, ''h1''),
      (''/in/c.ppm'', 20, ''h2''),
      (''/in/empty.png'', 0, ''h0''),
      (''/in/notes.txt'', 5, ''h3''),
      (''/app/tmp/ppm/a.png.ppm'', 2000000, ''p1''),
      (''/in/d.png'', 30, ''h4''),
      (''/app/tmp/ppm/d.png.ppm'', 1000000, ''p4'')]"

definition demo_number :: "string \<Rightarrow> jsnum" where
  "demo_number str =
     (if str \<noteq> [] \<and> list_all (\<lambda>c. c \<in> set ''0123456789'') str
      then Fin (of_nat (fold (\<lambda>c n. 10 * n + (of_char c - 48)) str 0)) else NaN)"

definition demo :: "demo_world env" where
  "demo =
     \<lparr>dateNow = fst,
      run = demo_run,
      statSize = (\<lambda>p w. map_option fst (map_of demo_table p)),
      sha256 = (\<lambda>p w. map_option snd (map_of demo_table p)),
      linkFile = (\<lambda>src dst w. Some w),
      copyFile = (\<lambda>src dst w. Some w),
      gmWrite = (\<lambda>src dst w. w),
      parseInt = demo_number,
      strToNumber = demo_number,
      numToString = (\<lambda>n. ''0''),
      dirname = ''/app''\<rparr>"

definition demo_sys :: "(proc \<times> int) list \<Rightarrow> demo_world sys" where
  "demo_sys script = \<lparr>world = (0, script), trace = []\<rparr>"

text \<open>The result of a directory walk: a duplicate pair, a text file and an empty file.\<close>

definition demo_walk :: "string list" where
  "demo_walk = [''/in/a.png'', ''/in/notes.txt'', ''/in/empty.png'', ''/in/b.png'']"

text \<open>A file object as \<open>getAllFiles\<close> returns it.\<close>

definition demo_file :: obj where
  "demo_file =
     [(''filename'', Str ''a.png''),
      (''originalSize'', Num (Fin 10)),
      (''originalsha256'', Str ''h1''),
      (''ppmFile'', Str ''/app/tmp/ppm/a.png.ppm''),
      (''ppmSize'', Num (Fin 2000000)),
      (''ppmsha256'', Str ''p1'')]"

text \<open>
  Three scripts for the three runs of one compressor: all succeed after 120, 95 and 130
  milliseconds; the second exits with status 2; all three exit with status 2.
\<close>

definition script_ok :: "(proc \<times> int) list" where
  "script_ok = [(Exited 0 [], 120), (Exited 0 [], 95), (Exited 0 [], 130)]"

definition script_one_fails :: "(proc \<times> int) list" where
  "script_one_fails = [(Exited 0 [], 120), (Exited 2 [], 95), (Exited 0 [], 130)]"

definition script_all_fail :: "(proc \<times> int) list" where
  "script_all_fail = [(Exited 2 [], 3), (Exited 2 [], 3), (Exited 2 [], 3)]"

definition script_500 :: "(proc \<times> int) list" where
  "script_500 = [(Exited 0 [], 500), (Exited 0 [], 600), (Exited 0 [], 700)]"

text \<open>
  The record of \<open>demo_file\<close> after the Lea 0.4 compression took \<open>t4\<close> milliseconds at
  speed \<open>v4\<close>, and after the Lea 0.5 compression took \<open>t5\<close> at speed \<open>v5\<close>, with an
  artifact of 4096 bytes each time.
\<close>

definition demo_entry04 :: "real \<Rightarrow> jsnum \<Rightarrow> obj" where
  "demo_entry04 t4 v4 =
     [(''filename'', Str ''a.png''),
      (''originalSize'', Num (Fin 10)),
      (''originalsha256'', Str ''h1''),
      (''ppmFile'', Str ''/app/tmp/ppm/a.png.ppm''),
      (''ppmSize'', Num (Fin 2000000)),
      (''ppmsha256'', Str ''p1''),
      (''cTime0.4'', Num (Fin t4)),
      (''cSpeed0.4'', Num v4),
      (''cSize0.4'', Num (Fin 4096)),
      (''cRatio0.4'', Num (Fin 40960)),
      (''cRatioPPM0.4'', Num (Fin (128 / 625)))]"

definition demo_entry05 :: "real \<Rightarrow> jsnum \<Rightarrow> real \<Rightarrow> jsnum \<Rightarrow> obj" where
  "demo_entry05 t4 v4 t5 v5 =
     demo_entry04 t4 v4 @
     [(''cTime0.5'', Num (Fin t5)),
      (''cSpeed0.5'', Num v5),
      (''cSize0.5'', Num (Fin 4096)),
      (''cRatio0.5'', Num (Fin 40960)),
      (''cRatioPPM0.5'', Num (Fin (128 / 625))),
      (''cTimeDiff'', Num (Fin (t5 - t4))),
      (''cRatioDiff'', Num (Fin 0))]"

text \<open>
  Three scripts for a whole run on one file: every command succeeds; on Windows, the
  Lea 0.5 decompressor fails three times and \<open>wc -c\<close> then fails on the missing file;
  the Lea 0.4 compressor and decompressor fail three times each and \<open>du\<close> prints
  nothing for the missing artifacts.
\<close>

definition script_complete :: "(proc \<times> int) list" where
  "script_complete =
     [(Exited 0 [], 100), (Exited 0 [], 110), (Exited 0 [], 120), (Exited 0 ''4096 '', 0),
      (Exited 0 [], 150), (Exited 0 [], 160), (Exited 0 [], 170), (Exited 0 ''4000 '', 0),
      (Exited 0 [], 30), (Exited 0 [], 31), (Exited 0 [], 32), (Exited 0 ''2000000 '', 0),
      (Exited 0 [], 40), (Exited 0 [], 41), (Exited 0 [], 42), (Exited 0 ''2000000 '', 0)]"

definition script_restore_fails :: "(proc \<times> int) list" where
  "script_restore_fails =
     [(Exited 0 [], 100), (Exited 0 [], 110), (Exited 0 [], 120), (Exited 0 ''4096 '', 0),
      (Exited 0 [], 150), (Exited 0 [], 160), (Exited 0 [], 170), (Exited 0 ''4000 '', 0),
      (Exited 0 [], 30), (Exited 0 [], 31), (Exited 0 [], 32), (Exited 0 ''2000000 '', 0),
      (Exited 2 [], 5), (Exited 2 [], 5), (Exited 2 [], 5), (Exited 2 [], 0)]"


text \<open>
  The run in which the Lea 0.5 decompressor fails three times, off Windows: \<open>du\<close> in
  front of \<open>cut\<close> prints nothing for the missing file and the pipeline exits with
  status 0.
\<close>

definition script_restore_fails_du :: "(proc \<times> int) list" where
  "script_restore_fails_du =
     [(Exited 0 [], 100), (Exited 0 [], 110), (Exited 0 [], 120), (Exited 0 ''4096 '', 0),
      (Exited 0 [], 150), (Exited 0 [], 160), (Exited 0 [], 170), (Exited 0 ''4000 '', 0),
      (Exited 0 [], 30), (Exited 0 [], 31), (Exited 0 [], 32), (Exited 0 ''2000000 '', 0),
      (Exited 2 [], 5), (Exited 2 [], 5), (Exited 2 [], 5), (Exited 0 [], 0)]"

text \<open>The record of \<open>demo_file\<close> at the end of the run in which every command succeeds.\<close>

definition demo_record :: obj where
  "demo_record =
     [(''filename'', Str ''a.png''),
      (''originalSize'', Num (Fin 10)),
      (''originalsha256'', Str ''h1''),
      (''ppmSize'', Num (Fin 2000000)),
      (''ppmsha256'', Str ''p1''),
      (''cTime0.4'', Num (Fin 100)),
      (''cSpeed0.4'', Num (Fin 20000000)),
      (''cSize0.4'', Num (Fin 4096)),
      (''cRatio0.4'', Num (Fin 40960)),
      (''cRatioPPM0.4'', Num (Fin (128 / 625))),
      (''cTime0.5'', Num (Fin 150)),
      (''cSpeed0.5'', Num (Fin (40000000 / 3))),
      (''cSize0.5'', Num (Fin 4000)),
      (''cRatio0.5'', Num (Fin 40000)),
      (''cRatioPPM0.5'', Num (Fin (1 / 5))),
      (''cTimeDiff'', Num (Fin 50)),
      (''cRatioDiff'', Num (Fin (- 960))),
      (''dTime0.4'', Num (Fin 30)),
      (''dSpeed0.4'', Num (Fin (200000000 / 3))),
      (''roundTrip0.4'', Num (Fin 130)),
      (''dTime0.5'', Num (Fin 40)),
      (''dSpeed0.5'', Num (Fin 50000000)),
      (''dTimeDiff'', Num (Fin 10)),
      (''roundTrip0.5'', Num (Fin 190)),
      (''roundTripDiff'', Num (Fin 60))]"

text \<open>
  A second world, whose commands depend on their text alone: \<open>du\<close> prints 4096, the
  Lea 0.4 compressor exits with status 2 after 5 milliseconds on the first image, every
  other command succeeds after 7.
\<close>

definition failing_prefix :: string where
  "failing_prefix =
     ''WINEDEBUG=-all wine /app/bin/v0.4/clea.exe '' @ quoted ''/app/tmp/ppm/a.png.ppm''"

definition steady_run :: "string \<Rightarrow> int \<Rightarrow> proc \<times> int" where
  "steady_run cmd t =
     (if take 6 cmd = ''du -b '' then (Exited 0 ''4096 '', t)
      else if take (length failing_prefix) cmd = failing_prefix then (Exited 2 [], t + 5)
      else (Exited 0 [], t + 7))"

definition steady :: "int env" where
  "steady =
     \<lparr>dateNow = (\<lambda>t. t),
      run = steady_run,
      statSize = (\<lambda>p w. map_option fst (map_of demo_table p)),
      sha256 = (\<lambda>p w. map_option snd (map_of demo_table p)),
      linkFile = (\<lambda>src dst w. Some w),
      copyFile = (\<lambda>src dst w. Some w),
      gmWrite = (\<lambda>src dst w. w),
      parseInt = demo_number,
      strToNumber = demo_number,
      numToString = (\<lambda>n. ''0''),
      dirname = ''/app''\<rparr>"




section \<open>Evaluating the concrete environment\<close>

lemma demo_simps [simp]:
  "dateNow demo = fst" "run demo = demo_run" "dirname demo = ''/app''"
  "parseInt demo = demo_number" "strToNumber demo = demo_number"
  "statSize demo = (\<lambda>p w. map_option fst (map_of demo_table p))"
  "sha256 demo = (\<lambda>p w. map_option snd (map_of demo_table p))"
  "linkFile demo = (\<lambda>src dst w. Some w)" "copyFile demo = (\<lambda>src dst w. Some w)"
  "gmWrite demo = (\<lambda>src dst w. w)"
  by (simp_all add: demo_def)

lemmas path_defs = toLowerCase_def extname_def basename_def lower_char_def path_join_def
  path_join_js_def imgFolder_def ppmTempFolder_def quoted_def

section \<open>The dependency checks never reach their exit\<close>

lemma main_never_exits: "main e isWindows walked s \<noteq> Some (Exit n, s')"
  by (auto simp: main_def haveGm_def haveWine_def
           split: option.splits sum.splits prod.splits if_splits)

text \<open>
  C8. When the converter or, off Windows, wine is missing, \<open>execSync\<close> throws at the top
  level of the module: the run ends with that uncaught exception, before any file is
  touched, and not through \<open>process.exit(2)\<close>, which no run reaches.
\<close>

theorem missing_dependency_is_uncaught:
  "main e isWindows walked s \<noteq> Some (Exit 2, s') \<and>
   (execSync e ((if isWindows then ''gm.exe'' else ''gm'') @ '' version'') s = Some (Inl err, s1)
      \<longrightarrow> main e isWindows walked s = Some (Uncaught err, s1)) \<and>
   (execSync e ((if isWindows then ''gm.exe'' else ''gm'') @ '' version'') s = Some (Inr out, s1)
      \<and> \<not> isWindows \<and> execSync e ''wine --version'' s1 = Some (Inl err, s2)
      \<longrightarrow> main e isWindows walked s = Some (Uncaught err, s2))"
  by (auto simp: main_def haveGm_def haveWine_def
           split: option.splits sum.splits prod.splits if_splits)

theorem missing_dependency_witness:
  "execSync demo ((if False then ''gm.exe'' else ''gm'') @ '' version'')
       (demo_sys [(Exited 127 [], 0)])
     = Some (Inl (ExecError 127), \<lparr>world = (0, []), trace = [Exec ''gm version'']\<rparr>) \<and>
   main demo False [''/in/a.png''] (demo_sys [(Exited 127 [], 0)])
     = Some (Uncaught (ExecError 127), \<lparr>world = (0, []), trace = [Exec ''gm version'']\<rparr>) \<and>
   execSync demo ((if False then ''gm.exe'' else ''gm'') @ '' version'')
       (demo_sys [(Exited 0 [], 0), (NotLaunched, 0)])
     = Some (Inr [], \<lparr>world = (0, [(NotLaunched, 0)]), trace = [Exec ''gm version'']\<rparr>) \<and>
   execSync demo ''wine --version''
       \<lparr>world = (0, [(NotLaunched, 0)]), trace = [Exec ''gm version'']\<rparr>
     = Some (Inl SpawnError,
             \<lparr>world = (0, []), trace = [Exec ''gm version'', Exec ''wine --version'']\<rparr>) \<and>
   main demo False [''/in/a.png''] (demo_sys [(Exited 0 [], 0), (NotLaunched, 0)])
     = Some (Uncaught SpawnError,
             \<lparr>world = (0, []), trace = [Exec ''gm version'', Exec ''wine --version'']\<rparr>)"
proof -
  let ?g = "(if False then ''gm.exe'' else ''gm'') @ '' version''"
  let ?s1 = "\<lparr>world = (0 :: int, [] :: (proc \<times> int) list), trace = [Exec ''gm version'']\<rparr>"
  let ?t1 = "\<lparr>world = (0 :: int, [(NotLaunched, 0 :: int)]), trace = [Exec ''gm version'']\<rparr>"
  let ?t2 = "\<lparr>world = (0 :: int, [] :: (proc \<times> int) list),
             trace = [Exec ''gm version'', Exec ''wine --version'']\<rparr>"
  have h: "execSync demo ?g (demo_sys [(Exited 127 [], 0)]) = Some (Inl (ExecError 127), ?s1)"
    by (simp add: execSync_def demo_sys_def demo_run_def)
  have g: "execSync demo ?g (demo_sys [(Exited 0 [], 0), (NotLaunched, 0)]) = Some (Inr [], ?t1)"
    by (simp add: execSync_def demo_sys_def demo_run_def)
  have w: "execSync demo ''wine --version'' ?t1 = Some (Inl SpawnError, ?t2)"
    by (simp add: execSync_def demo_run_def)
  from missing_dependency_is_uncaught [of demo False "[''/in/a.png'']"
      "demo_sys [(Exited 127 [], 0)]" ?s1 "ExecError 127" ?s1] h
  have a: "main demo False [''/in/a.png''] (demo_sys [(Exited 127 [], 0)])
     = Some (Uncaught (ExecError 127), ?s1)"
    by blast
  from missing_dependency_is_uncaught [of demo False "[''/in/a.png'']"
      "demo_sys [(Exited 0 [], 0), (NotLaunched, 0)]" ?t2 SpawnError ?t1 "[]" ?t2] g w
  have b: "main demo False [''/in/a.png''] (demo_sys [(Exited 0 [], 0), (NotLaunched, 0)])
     = Some (Uncaught SpawnError, ?t2)"
    by blast
  from h a g w b show ?thesis by blast
qed

section \<open>Normalising a file that is already PPM\<close>

lemma normalizeOne_ppm:
  assumes "get file ''filename'' = Str fn" "toLowerCase (extname fn) = ''.ppm''"
  shows "normalizeOne e file s = (Inl TypeError, s)"
  using assms by (simp add: normalizeOne_def path_join_js_def prop_ppm_def to_str_def)

lemma normalizeOne_error: "normalizeOne e file s = (Inl err, s') \<Longrightarrow> err = TypeError"
  by (auto simp: normalizeOne_def path_join_js_def prop_ppm_def convert_def Let_def
           split: sum.splits option.splits if_splits jsval.splits list.splits)

lemma mapE_error:
  assumes "\<And>x s err s'. f x s = (Inl err, s') \<Longrightarrow> err = c"
    and "x \<in> set xs" and "\<And>s. fst (f x s) = Inl c"
  shows "fst (mapE f xs s) = Inl c"
  using assms(2)
proof (induction xs arbitrary: s)
  case Nil
  then show ?case by simp
next
  case (Cons y ys)
  show ?case
  proof (cases "f y s")
    case (Pair r s1)
    show ?thesis
    proof (cases r)
      case (Inl err)
      with Pair assms(1) show ?thesis by auto
    next
      case (Inr v)
      with Pair assms(3)[of s] have "y \<noteq> x" by auto
      with Cons.prems have "x \<in> set ys" by simp
      from Cons.IH[OF this, of s1] Pair Inr show ?thesis
        by (auto split: prod.splits sum.splits)
    qed
  qed
qed

text \<open>
  C7. For a file whose name ends in \<open>.ppm\<close> the loop body of \<open>normalizeToPPM\<close> throws a
  \<open>TypeError\<close> at \<open>path.join(ppmTempFolder, file.filename.ppm)\<close> and leaves the state as
  it was: nothing is copied and the converter is not started. A list that holds such a
  file makes \<open>normalizeToPPM\<close> throw.
\<close>

theorem normalize_ppm_throws:
  assumes "file \<in> set files" "get file ''filename'' = Str fn"
    and "toLowerCase (extname fn) = ''.ppm''"
  shows "normalizeOne e file s = (Inl TypeError, s) \<and>
         fst (normalizeToPPM e files s') = Inl TypeError"
proof -
  have one: "\<And>s. normalizeOne e file s = (Inl TypeError, s)"
    using assms(2,3) by (rule normalizeOne_ppm)
  have "fst (mapE (normalizeOne e) files s') = Inl TypeError"
    by (rule mapE_error [where x = "file"]) (auto simp: one assms(1) dest: normalizeOne_error)
  then show ?thesis
    by (auto simp: one normalizeToPPM_def split: prod.splits sum.splits)
qed

lemma demo_clean_ppm:
  "cleanList demo [''/in/c.ppm''] (demo_sys []) =
     (Inr [[(''fullname'', Str ''/in/c.ppm''), (''filename'', Str ''c.ppm''),
            (''originalSize'', Num (Fin 20)), (''originalsha256'', Str ''h2'')]],
      \<lparr>world = (0, []), trace = [Hash ''/in/c.ppm'']\<rparr>)"
proof -
  have "valid_ext ''/in/c.ppm''"
    by (simp add: valid_ext_def validFileExtensions_def path_defs Let_def)
  then show ?thesis
    by (simp add: cleanList_def deduper_def dedup_entry_def demo_table_def logged_def demo_sys_def
        basename_def)
qed

theorem normalize_ppm_witness:
  "[(''filename'', Str ''c.ppm'')] \<in> set [[(''filename'', Str ''c.ppm'')]] \<and>
   get [(''filename'', Str ''c.ppm'')] ''filename'' = Str ''c.ppm'' \<and>
   toLowerCase (extname ''c.ppm'') = ''.ppm'' \<and>
   normalizeOne demo [(''filename'', Str ''c.ppm'')] (demo_sys []) = (Inl TypeError, demo_sys []) \<and>
   fst (normalizeToPPM demo [[(''filename'', Str ''c.ppm'')]] (demo_sys [])) = Inl TypeError \<and>
   getAllFiles demo [''/in/c.ppm''] (demo_sys [])
     = (Inl TypeError, \<lparr>world = (0, []), trace = [Hash ''/in/c.ppm'']\<rparr>)"
proof -
  have a: "[(''filename'', Str ''c.ppm'')] \<in> set [[(''filename'', Str ''c.ppm'')]]" by simp
  have b: "get [(''filename'', Str ''c.ppm'')] ''filename'' = Str ''c.ppm''"
    by (simp add: get_def)
  have c: "toLowerCase (extname ''c.ppm'') = ''.ppm''"
    by (simp add: path_defs Let_def)
  have d: "getAllFiles demo [''/in/c.ppm''] (demo_sys [])
     = (Inl TypeError, \<lparr>world = (0, []), trace = [Hash ''/in/c.ppm'']\<rparr>)"
    by (simp add: getAllFiles_def demo_clean_ppm toTestbed_def placeImage_def get_def
        delete_key_def normalizeToPPM_def normalizeOne_def prop_ppm_def to_str_def path_defs
        Let_def)
  from normalize_ppm_throws [OF a b c, of demo "demo_sys []" "demo_sys []"] a b c d
  show ?thesis by blast
qed

section \<open>Objects\<close>

lemma get_update: "get (AList.update k v ob) k' = (if k' = k then v else get ob k')"
  by (simp add: get_def update_conv')

lemma spread_Nil [simp]: "spread ob [] = ob"
  by (simp add: spread_def)

lemma spread_Cons [simp]: "spread ob ((k, v) # kvs) = spread (AList.update k v ob) kvs"
  by (simp add: spread_def)

lemma get_delete_key: "get (delete_key k ob) k' = (if k' = k then Undefined else get ob k')"
  by (simp add: get_def delete_key_def delete_conv')

section \<open>Timed runs\<close>

lemma execSync_None_iff:
  "execSync e cmd s = None \<longleftrightarrow> fst (run e cmd (world s)) = NeverExits"
  by (auto simp: execSync_def split: prod.splits proc.splits)

lemma runSync_None_iff:
  "runSync e cmd s = None \<longleftrightarrow> fst (run e cmd (world s)) = NeverExits"
  by (auto simp: runSync_def Let_def execSync_None_iff [symmetric]
           split: option.splits sum.splits prod.splits)

lemma runSync_Some:
  assumes "runSync e cmd s = Some (r, s')"
  shows "trace s' = trace s @ [Exec cmd]"
    and "world s' = snd (run e cmd (world s))"
    and "isl (result r) \<Longrightarrow> time r = - 1"
    and "\<not> isl (result r) \<Longrightarrow> time r = dateNow e (world s') - dateNow e (world s)"
  using assms
  by (auto simp: runSync_def execSync_def Let_def
           split: option.splits sum.splits prod.splits proc.splits if_splits)

lemma runTimes_3:
  "runTimes 3 e cmd s =
     (case runSync e cmd s of
        None \<Rightarrow> None
      | Some (r1, s1) \<Rightarrow>
          (case runSync e cmd s1 of
             None \<Rightarrow> None
           | Some (r2, s2) \<Rightarrow>
               (case runSync e cmd s2 of
                  None \<Rightarrow> None
                | Some (r3, s3) \<Rightarrow> Some ([time r1, time r2, time r3], s3))))"
  by (simp add: numeral_3_eq_3 split: option.splits prod.splits)

lemma math_min_3: "math_min [a, b, c] = Fin (of_int (min a (min b c)))"
  by (simp add: min.commute min.left_commute)

lemma runSync_time:
  assumes "runSync e cmd a = Some (r, b)" and "dateNow e (world a) \<le> dateNow e (world b)"
  shows "(isl (result r) \<longrightarrow> time r = - 1) \<and> (\<not> isl (result r) \<longrightarrow> 0 \<le> time r)"
  using runSync_Some(3,4)[OF assms(1)] assms(2) by auto

lemmas run_defs = runSync_def execSync_def demo_run_def demo_sys_def Let_def

lemma demo_number_4096: "demo_number ''4096'' = Fin 4096"
  by (simp add: demo_number_def)

lemma demo_sizeOf:
  "sizeOf demo False p \<lparr>world = (t, []), trace = tr\<rparr> =
     Some (Inr (Num (Fin 4096)),
           \<lparr>world = (t, []), trace = tr @ [Exec (''du -b '' @ p @ '' | cut -f1'')]\<rparr>)"
  by (simp add: sizeOf_def run_defs demo_number_4096)

lemma demo_entry:
  "spread demo_file (fields_c04 demo demo_file (Fin t) (Num (Fin 4096))) =
     demo_entry04 t (js_div (Fin 2000000) (Fin (t / 1000)))"
  by (simp add: demo_file_def demo_entry04_def fields_c04_def get_def speed_def ratio_def
      to_number_def)

section \<open>What each callback writes\<close>

lemma runTimes_3_Some:
  assumes "runTimes 3 e cmd s = Some (ts, s')"
  shows "\<exists>a b c. ts = [a, b, c]"
  using assms by (auto simp: runTimes_3 split: option.splits prod.splits)

lemma runTimes_3_min:
  assumes "runTimes 3 e cmd s = Some (ts, s')"
  shows "\<exists>m. math_min ts = Fin (of_int m)"
  using runTimes_3_Some[OF assms] by auto

lemma compress04_cases:
  assumes "compress04 e w file (report, s) = Some (report', s')"
  shows "report' = report \<or>
    (\<exists>m sz. report' = report @ [spread file (fields_c04 e file (Fin (of_int m)) sz)])"
proof -
  from assms obtain ts s1 where rt: "runTimes 3 e (cmd_c04 e w file) s = Some (ts, s1)"
    by (auto split: option.splits)
  from runTimes_3_min[OF rt] obtain m where m: "math_min ts = Fin (of_int m)" by blast
  from assms rt m show ?thesis
    by (auto simp del: math_min.simps split: option.splits sum.splits prod.splits)
qed

lemma compress05_cases:
  assumes "compress05 e w file (report, s) = Some (report', s')"
  shows "report' = report \<or>
    (\<exists>i m sz. findIndex (same_sha file) report = Some i \<and>
       report' = report[i := spread (report ! i) (fields_c05 e file (report ! i) (Fin (of_int m)) sz)])"
proof -
  from assms obtain ts s1 where rt: "runTimes 3 e (cmd_c05 e w file) s = Some (ts, s1)"
    by (auto split: option.splits)
  from runTimes_3_min[OF rt] obtain m where m: "math_min ts = Fin (of_int m)" by blast
  from assms rt m show ?thesis
    by (auto simp del: math_min.simps simp: Let_def split: option.splits sum.splits prod.splits)
qed

lemma decompress04_cases:
  assumes "decompress04 e w file (report, s) = Some (report', s')"
  shows "report' = report \<or>
    (\<exists>i m sz. findIndex (same_sha file) report = Some i \<and>
       report' = report[i := spread (report ! i) (fields_d04 e (report ! i) (Fin (of_int m)) sz)])"
proof -
  from assms obtain ts s1 where rt: "runTimes 3 e (cmd_d04 e w file) s = Some (ts, s1)"
    by (auto split: option.splits)
  from runTimes_3_min[OF rt] obtain m where m: "math_min ts = Fin (of_int m)" by blast
  from assms rt m show ?thesis
    by (auto simp del: math_min.simps simp: Let_def split: option.splits sum.splits prod.splits)
qed

lemma decompress05_cases:
  assumes "decompress05 e w file (report, s) = Some (report', s')"
  shows "report' = report \<or>
    (\<exists>i m sz. findIndex (same_sha file) report = Some i \<and>
       report' = report[i := delete_key ''ppmFile''
          (spread (report ! i) (fields_d05 e (report ! i) (Fin (of_int m)) sz))])"
proof -
  from assms obtain ts s1 where rt: "runTimes 3 e (cmd_d05 e w file) s = Some (ts, s1)"
    by (auto split: option.splits)
  from runTimes_3_min[OF rt] obtain m where m: "math_min ts = Fin (of_int m)" by blast
  from assms rt m show ?thesis
    by (auto simp del: math_min.simps simp: Let_def split: option.splits sum.splits prod.splits)
qed

lemma findIndex_Some:
  "findIndex P xs = Some i \<Longrightarrow> i < length xs \<and> P (xs ! i) \<and> (\<forall>j<i. \<not> P (xs ! j))"
proof (induction xs arbitrary: i)
  case Nil then show ?case by simp
next
  case (Cons x xs)
  then show ?case
    by (auto split: if_splits simp: nth_Cons split: nat.splits)
qed

lemma speed_Fin:
  "speed e (Num (Fin b)) (Fin t) =
     (if t \<noteq> 0 then Fin (b / (t / 1000)) else if b = 0 then NaN else inf_of (0 < b))"
  by (simp add: speed_def to_number_def)

lemma json_speed:
  "json_of_val (Num (speed e (Num (Fin b)) (Fin t))) =
     Some (if t = 0 then JNull else JNumber (b / (t / 1000)))"
  by (simp add: speed_Fin json_of_val_def inf_of_def)

text \<open>
  C3 (as amended). The recorded compression speed of either variant is
  \<open>ppmSize / (minTime / 1000)\<close> for whatever time was recorded, computed without a guard
  and without raising: for a time other than zero it is that quotient in bytes per second
  (2,000,000 bytes in 500 ms give 4,000,000), which is a negative number for the failure
  time \<open>-1\<close>; for the time zero it is not finite and is written as \<open>null\<close>.
\<close>

theorem recorded_speed:
  assumes "get file ''ppmSize'' = Num (Fin b)"
  shows "(compress04 e w file (report, s) = Some (report @ [entry], s') \<longrightarrow>
           (\<exists>t. get entry ''cTime0.4'' = Num (Fin t) \<and>
                get entry ''cSpeed0.4'' =
                  Num (if t \<noteq> 0 then Fin (b / (t / 1000)) else if b = 0 then NaN else inf_of (0 < b)) \<and>
                json_of_val (get entry ''cSpeed0.4'') =
                  Some (if t = 0 then JNull else JNumber (b / (t / 1000))))) \<and>
         (compress05 e w file (report, s) = Some (report', s') \<and> report' \<noteq> report \<and>
          findIndex (same_sha file) report = Some i \<longrightarrow>
           (\<exists>t. get (report' ! i) ''cTime0.5'' = Num (Fin t) \<and>
                get (report' ! i) ''cSpeed0.5'' =
                  Num (if t \<noteq> 0 then Fin (b / (t / 1000)) else if b = 0 then NaN else inf_of (0 < b)) \<and>
                json_of_val (get (report' ! i) ''cSpeed0.5'') =
                  Some (if t = 0 then JNull else JNumber (b / (t / 1000)))))"
proof (intro conjI impI)
  assume h: "compress04 e w file (report, s) = Some (report @ [entry], s')"
  from compress04_cases[OF h] obtain m sz
    where "entry = spread file (fields_c04 e file (Fin (of_int m)) sz)" by auto
  then have "get entry ''cTime0.4'' = Num (Fin (of_int m))"
    and "get entry ''cSpeed0.4'' = Num (speed e (Num (Fin b)) (Fin (of_int m)))"
    by (simp_all add: fields_c04_def Let_def get_update assms)
  then show "\<exists>t. get entry ''cTime0.4'' = Num (Fin t) \<and>
                get entry ''cSpeed0.4'' =
                  Num (if t \<noteq> 0 then Fin (b / (t / 1000)) else if b = 0 then NaN else inf_of (0 < b)) \<and>
                json_of_val (get entry ''cSpeed0.4'') =
                  Some (if t = 0 then JNull else JNumber (b / (t / 1000)))"
    using speed_Fin[of e b "of_int m"] json_speed[of e b "of_int m"] by (intro exI[of _ "of_int m"]) simp
next
  assume h: "compress05 e w file (report, s) = Some (report', s') \<and> report' \<noteq> report \<and>
          findIndex (same_sha file) report = Some i"
  from h compress05_cases[of e w "file" report s report' s'] obtain m sz
    where r: "report' = report[i := spread (report ! i) (fields_c05 e file (report ! i) (Fin (of_int m)) sz)]"
    by auto
  from h findIndex_Some have "i < length report" by blast
  with r have "report' ! i = spread (report ! i) (fields_c05 e file (report ! i) (Fin (of_int m)) sz)"
    by simp
  then have "get (report' ! i) ''cTime0.5'' = Num (Fin (of_int m))"
    and "get (report' ! i) ''cSpeed0.5'' = Num (speed e (Num (Fin b)) (Fin (of_int m)))"
    by (simp_all add: fields_c05_def Let_def get_update assms)
  then show "\<exists>t. get (report' ! i) ''cTime0.5'' = Num (Fin t) \<and>
                get (report' ! i) ''cSpeed0.5'' =
                  Num (if t \<noteq> 0 then Fin (b / (t / 1000)) else if b = 0 then NaN else inf_of (0 < b)) \<and>
                json_of_val (get (report' ! i) ''cSpeed0.5'') =
                  Some (if t = 0 then JNull else JNumber (b / (t / 1000)))"
    using speed_Fin[of e b "of_int m"] json_speed[of e b "of_int m"] by (intro exI[of _ "of_int m"]) simp
qed

lemma demo_runTimes_idle:
  "runTimes 3 demo c \<lparr>world = (t, []), trace = tr\<rparr> =
     Some ([0, 0, 0], \<lparr>world = (t, []), trace = tr @ [Exec c, Exec c, Exec c]\<rparr>)"
  by (simp add: runTimes_3 run_defs)

lemma demo_runTimes_script:
  "runTimes 3 demo c (demo_sys [(Exited a [], x), (Exited b [], y), (Exited d [], z)]) =
     Some ([if a = 0 then x else - 1, if b = 0 then y else - 1, if d = 0 then z else - 1],
           \<lparr>world = (x + y + z, []), trace = [Exec c, Exec c, Exec c]\<rparr>)"
  by (simp add: runTimes_3 run_defs)

lemma demo_same_sha': "same_sha demo_file (demo_entry04 t v)"
  by (simp add: same_sha_def demo_file_def demo_entry04_def get_def)

lemma demo_same_sha: "findIndex (same_sha demo_file) [demo_entry04 t v] = Some 0"
  by (simp add: demo_same_sha')

lemma demo_entry5:
  "spread (demo_entry04 t4 v4) (fields_c05 demo demo_file (demo_entry04 t4 v4) (Fin t) (Num (Fin 4096)))
     = demo_entry05 t4 v4 t (js_div (Fin 2000000) (Fin (t / 1000)))"
  by (simp add: demo_file_def demo_entry04_def demo_entry05_def fields_c05_def get_def speed_def
      ratio_def to_number_def js_sub_def)

lemma demo_compress04:
  "compress04 demo False demo_file
       ([], demo_sys [(Exited a [], x), (Exited b [], y), (Exited d [], z)]) =
     Some ([spread demo_file (fields_c04 demo demo_file
              (math_min [if a = 0 then x else - 1, if b = 0 then y else - 1,
                         if d = 0 then z else - 1]) (Num (Fin 4096)))],
           \<lparr>world = (x + y + z, []),
            trace = [Exec (cmd_c04 demo False demo_file), Exec (cmd_c04 demo False demo_file),
                     Exec (cmd_c04 demo False demo_file),
                     Exec (''du -b '' @ lea4_path demo demo_file @ '' | cut -f1'')]\<rparr>)"
  by (simp add: demo_runTimes_script demo_sizeOf del: math_min.simps)

lemma demo_compress05_idle:
  "compress05 demo False demo_file ([demo_entry04 t4 v4], \<lparr>world = (t, []), trace = tr\<rparr>) =
     Some ([demo_entry05 t4 v4 0 PInf],
           \<lparr>world = (t, []),
            trace = tr @
                    [Exec (cmd_c05 demo False demo_file), Exec (cmd_c05 demo False demo_file),
                     Exec (cmd_c05 demo False demo_file),
                     Exec (''du -b '' @ lea5_path demo demo_file @ '' | cut -f1'')]\<rparr>)"
  by (simp add: demo_runTimes_idle demo_sizeOf demo_same_sha' demo_entry5 inf_of_def)

theorem recorded_speed_witness:
  "get demo_file ''ppmSize'' = Num (Fin 2000000) \<and>
   compress04 demo False demo_file ([], demo_sys script_500) =
     Some ([] @ [demo_entry04 500 (Fin 4000000)],
           \<lparr>world = (1800, []),
            trace = [Exec (cmd_c04 demo False demo_file), Exec (cmd_c04 demo False demo_file),
                     Exec (cmd_c04 demo False demo_file),
                     Exec (''du -b '' @ lea4_path demo demo_file @ '' | cut -f1'')]\<rparr>) \<and>
   get (demo_entry04 500 (Fin 4000000)) ''cTime0.4'' = Num (Fin 500) \<and>
   get (demo_entry04 500 (Fin 4000000)) ''cSpeed0.4'' = Num (Fin 4000000) \<and>
   json_of_val (get (demo_entry04 500 (Fin 4000000)) ''cSpeed0.4'') = Some (JNumber 4000000) \<and>
   compress05 demo False demo_file
       ([demo_entry04 500 (Fin 4000000)], \<lparr>world = (1800, []), trace = []\<rparr>) =
     Some ([demo_entry05 500 (Fin 4000000) 0 PInf],
           \<lparr>world = (1800, []),
            trace = [] @
                    [Exec (cmd_c05 demo False demo_file), Exec (cmd_c05 demo False demo_file),
                     Exec (cmd_c05 demo False demo_file),
                     Exec (''du -b '' @ lea5_path demo demo_file @ '' | cut -f1'')]\<rparr>) \<and>
   [demo_entry05 500 (Fin 4000000) 0 PInf] \<noteq> [demo_entry04 500 (Fin 4000000)] \<and>
   findIndex (same_sha demo_file) [demo_entry04 500 (Fin 4000000)] = Some 0 \<and>
   get ([demo_entry05 500 (Fin 4000000) 0 PInf] ! 0) ''cTime0.5'' = Num (Fin 0) \<and>
   get ([demo_entry05 500 (Fin 4000000) 0 PInf] ! 0) ''cSpeed0.5'' = Num PInf \<and>
   json_of_val (get ([demo_entry05 500 (Fin 4000000) 0 PInf] ! 0) ''cSpeed0.5'') = Some JNull"
proof -
  let ?E4 = "demo_entry04 500 (Fin 4000000)"
  let ?E5 = "demo_entry05 500 (Fin 4000000) 0 PInf"
  let ?S4 = "\<lparr>world = (1800 :: int, [] :: (proc \<times> int) list),
            trace = [Exec (cmd_c04 demo False demo_file), Exec (cmd_c04 demo False demo_file),
                     Exec (cmd_c04 demo False demo_file),
                     Exec (''du -b '' @ lea4_path demo demo_file @ '' | cut -f1'')]\<rparr>"
  let ?S5 = "\<lparr>world = (1800 :: int, [] :: (proc \<times> int) list),
            trace = [] @
                    [Exec (cmd_c05 demo False demo_file), Exec (cmd_c05 demo False demo_file),
                     Exec (cmd_c05 demo False demo_file),
                     Exec (''du -b '' @ lea5_path demo demo_file @ '' | cut -f1'')]\<rparr>"
  have h: "get demo_file ''ppmSize'' = Num (Fin 2000000)"
    by (simp add: demo_file_def get_def)
  have c4: "compress04 demo False demo_file ([], demo_sys script_500) = Some ([] @ [?E4], ?S4)"
    unfolding script_500_def demo_compress04 by (simp add: demo_entry)
  have c5: "compress05 demo False demo_file ([?E4], \<lparr>world = (1800, []), trace = []\<rparr>)
      = Some ([?E5], ?S5)"
    by (rule demo_compress05_idle)
  have ne: "[?E5] \<noteq> [?E4]"
    by (simp add: demo_entry05_def)
  have fi: "findIndex (same_sha demo_file) [?E4] = Some 0"
    by (rule demo_same_sha)
  have g4: "get ?E4 ''cTime0.4'' = Num (Fin 500)" "get ?E4 ''cSpeed0.4'' = Num (Fin 4000000)"
    by (simp_all add: demo_entry04_def get_def)
  have g5: "get ([?E5] ! 0) ''cTime0.5'' = Num (Fin 0)" "get ([?E5] ! 0) ''cSpeed0.5'' = Num PInf"
    by (simp_all add: demo_entry05_def demo_entry04_def get_def)
  from recorded_speed [OF h, where e = demo and w = False and report = "[]"
      and s = "demo_sys script_500" and entry = ?E4 and s' = ?S4] c4 g4
  have j4: "json_of_val (get ?E4 ''cSpeed0.4'') = Some (JNumber 4000000)"
    by (auto split: if_splits)
  have j5: "json_of_val (get ([?E5] ! 0) ''cSpeed0.5'') = Some JNull"
    using g5 by (simp add: json_of_val_def)
  from h c4 g4 j4 c5 ne fi g5 j5 show ?thesis by blast
qed

theorem failed_runs_give_a_negative_speed:
  "map_option fst (compress04 demo False demo_file ([], demo_sys script_all_fail)) =
     Some [demo_entry04 (- 1) (Fin (- 2000000000))] \<and>
   json_of_val (get (demo_entry04 (- 1) (Fin (- 2000000000))) ''cTime0.4'') = Some (JNumber (- 1)) \<and>
   json_of_val (get (demo_entry04 (- 1) (Fin (- 2000000000))) ''cSpeed0.4'')
     = Some (JNumber (- 2000000000))"
  unfolding script_all_fail_def demo_compress04
  by (simp add: demo_entry demo_entry04_def get_def json_of_val_def)

section \<open>The recorded compression time\<close>

text \<open>
  C1 (as amended). For either variant the compressor is run exactly three times in a row
  and the recorded compress time, \<open>cTime0.4\<close> of the pushed record for Lea 0.4 and
  \<open>cTime0.5\<close> of the updated record for Lea 0.5, is the minimum of the three values
  \<open>runSync\<close> returns, where a run that succeeds counts its wall-clock duration and a run
  that fails counts \<open>-1\<close>. With a clock that does not go back, the recorded time is \<open>-1\<close>
  exactly when at least one of the three runs fails, and it is a non-negative duration
  otherwise.
\<close>

theorem compress_time_is_min_of_three_runs:
  assumes clock: "dateNow e (world s) \<le> dateNow e (world s1)"
      "dateNow e (world s1) \<le> dateNow e (world s2)"
      "dateNow e (world s2) \<le> dateNow e (world s3)"
    and r1: "runSync e cmd s = Some (r1, s1)"
    and r2: "runSync e cmd s1 = Some (r2, s2)"
    and r3: "runSync e cmd s2 = Some (r3, s3)"
    and m: "m = min (time r1) (min (time r2) (time r3))"
  shows "runTimes 3 e cmd s = Some ([time r1, time r2, time r3], s3) \<and>
         trace s3 = trace s @ replicate 3 (Exec cmd) \<and>
         (m = - 1 \<longleftrightarrow> isl (result r1) \<or> isl (result r2) \<or> isl (result r3)) \<and>
         (m \<noteq> - 1 \<longrightarrow> 0 \<le> m) \<and>
         (cmd = cmd_c04 e isWindows file \<and>
          sizeOf e isWindows (lea4_path e file) s3 = Some (Inr compressedSize, s4) \<longrightarrow>
            compress04 e isWindows file (report, s) =
              Some (report @ [spread file (fields_c04 e file (Fin (of_int m)) compressedSize)], s4) \<and>
            get (spread file (fields_c04 e file (Fin (of_int m)) compressedSize)) ''cTime0.4''
              = Num (Fin (of_int m))) \<and>
         (cmd = cmd_c05 e isWindows file \<and>
          sizeOf e isWindows (lea5_path e file) s3 = Some (Inr compressedSize, s4) \<and>
          findIndex (same_sha file) report = Some i \<longrightarrow>
            compress05 e isWindows file (report, s) =
              Some (report[i := spread (report ! i)
                      (fields_c05 e file (report ! i) (Fin (of_int m)) compressedSize)], s4) \<and>
            get (report[i := spread (report ! i)
                   (fields_c05 e file (report ! i) (Fin (of_int m)) compressedSize)] ! i) ''cTime0.5''
              = Num (Fin (of_int m)))"
proof -
  have rt: "runTimes 3 e cmd s = Some ([time r1, time r2, time r3], s3)"
    by (simp add: runTimes_3 r1 r2 r3)
  have mm: "math_min [time r1, time r2, time r3] = Fin (of_int m)"
    unfolding m by (rule math_min_3)
  have tr: "trace s3 = trace s @ replicate 3 (Exec cmd)"
    using runSync_Some(1)[OF r1] runSync_Some(1)[OF r2] runSync_Some(1)[OF r3]
    by (simp add: numeral_3_eq_3)
  from runSync_time[OF r1 clock(1)] runSync_time[OF r2 clock(2)] runSync_time[OF r3 clock(3)]
  have sent: "(m = - 1 \<longleftrightarrow> isl (result r1) \<or> isl (result r2) \<or> isl (result r3))"
    and nonneg: "m \<noteq> - 1 \<longrightarrow> 0 \<le> m"
    unfolding m by (auto simp: min_def)
  have c4: "cmd = cmd_c04 e isWindows file \<and>
          sizeOf e isWindows (lea4_path e file) s3 = Some (Inr compressedSize, s4) \<longrightarrow>
            compress04 e isWindows file (report, s) =
              Some (report @ [spread file (fields_c04 e file (Fin (of_int m)) compressedSize)], s4) \<and>
            get (spread file (fields_c04 e file (Fin (of_int m)) compressedSize)) ''cTime0.4''
              = Num (Fin (of_int m))"
  proof (intro impI conjI)
    assume h: "cmd = cmd_c04 e isWindows file \<and>
          sizeOf e isWindows (lea4_path e file) s3 = Some (Inr compressedSize, s4)"
    with rt mm show "compress04 e isWindows file (report, s) =
              Some (report @ [spread file (fields_c04 e file (Fin (of_int m)) compressedSize)], s4)"
      by (simp del: math_min.simps)
    show "get (spread file (fields_c04 e file (Fin (of_int m)) compressedSize)) ''cTime0.4''
              = Num (Fin (of_int m))"
      by (simp add: fields_c04_def Let_def get_update)
  qed
  have c5: "cmd = cmd_c05 e isWindows file \<and>
          sizeOf e isWindows (lea5_path e file) s3 = Some (Inr compressedSize, s4) \<and>
          findIndex (same_sha file) report = Some i \<longrightarrow>
            compress05 e isWindows file (report, s) =
              Some (report[i := spread (report ! i)
                      (fields_c05 e file (report ! i) (Fin (of_int m)) compressedSize)], s4) \<and>
            get (report[i := spread (report ! i)
                   (fields_c05 e file (report ! i) (Fin (of_int m)) compressedSize)] ! i) ''cTime0.5''
              = Num (Fin (of_int m))"
  proof (intro impI conjI)
    assume h: "cmd = cmd_c05 e isWindows file \<and>
          sizeOf e isWindows (lea5_path e file) s3 = Some (Inr compressedSize, s4) \<and>
          findIndex (same_sha file) report = Some i"
    with rt mm show "compress05 e isWindows file (report, s) =
              Some (report[i := spread (report ! i)
                      (fields_c05 e file (report ! i) (Fin (of_int m)) compressedSize)], s4)"
      by (simp add: Let_def del: math_min.simps)
    from h findIndex_Some have "i < length report" by blast
    then show "get (report[i := spread (report ! i)
                   (fields_c05 e file (report ! i) (Fin (of_int m)) compressedSize)] ! i) ''cTime0.5''
              = Num (Fin (of_int m))"
      by (simp add: fields_c05_def Let_def get_update)
  qed
  from rt tr sent nonneg c4 c5 show ?thesis by blast
qed

lemma demo_three_runs:
  "runSync demo c \<lparr>world = (t, (Exited a [], x) # rest), trace = tr\<rparr> =
     Some (\<lparr>time = (if a = 0 then x else - 1),
            result = (if a = 0 then Inr [] else Inl (ExecError a))\<rparr>,
           \<lparr>world = (t + x, rest), trace = tr @ [Exec c]\<rparr>)"
  by (simp add: run_defs)

lemma demo_compress05:
  "compress05 demo False demo_file
       ([demo_entry04 t4 v4], demo_sys [(Exited a [], x), (Exited b [], y), (Exited d [], z)]) =
     Some ([spread (demo_entry04 t4 v4) (fields_c05 demo demo_file (demo_entry04 t4 v4)
              (math_min [if a = 0 then x else - 1, if b = 0 then y else - 1,
                         if d = 0 then z else - 1]) (Num (Fin 4096)))],
           \<lparr>world = (x + y + z, []),
            trace = [Exec (cmd_c05 demo False demo_file), Exec (cmd_c05 demo False demo_file),
                     Exec (cmd_c05 demo False demo_file),
                     Exec (''du -b '' @ lea5_path demo demo_file @ '' | cut -f1'')]\<rparr>)"
  by (simp add: demo_runTimes_script demo_sizeOf demo_same_sha' Let_def del: math_min.simps)

theorem compress_time_witness:
  "runSync demo (cmd_c04 demo False demo_file) (demo_sys script_ok) =
     Some (\<lparr>time = 120, result = Inr []\<rparr>,
           \<lparr>world = (120, [(Exited 0 [], 95), (Exited 0 [], 130)]),
            trace = [Exec (cmd_c04 demo False demo_file)]\<rparr>) \<and>
   compress04 demo False demo_file ([], demo_sys script_ok) =
     Some ([spread demo_file (fields_c04 demo demo_file (Fin 95) (Num (Fin 4096)))],
           \<lparr>world = (345, []),
            trace = replicate 3 (Exec (cmd_c04 demo False demo_file)) @
                    [Exec (''du -b '' @ lea4_path demo demo_file @ '' | cut -f1'')]\<rparr>) \<and>
   get (spread demo_file (fields_c04 demo demo_file (Fin 95) (Num (Fin 4096)))) ''cTime0.4''
     = Num (Fin 95) \<and>
   runTimes 3 demo (cmd_c05 demo False demo_file) (demo_sys script_ok) =
     Some ([120, 95, 130],
           \<lparr>world = (345, []), trace = replicate 3 (Exec (cmd_c05 demo False demo_file))\<rparr>) \<and>
   findIndex (same_sha demo_file) [demo_entry04 100 (Fin 20000000)] = Some 0 \<and>
   compress05 demo False demo_file ([demo_entry04 100 (Fin 20000000)], demo_sys script_ok) =
     Some ([spread (demo_entry04 100 (Fin 20000000))
              (fields_c05 demo demo_file (demo_entry04 100 (Fin 20000000)) (Fin 95)
                 (Num (Fin 4096)))],
           \<lparr>world = (345, []),
            trace = replicate 3 (Exec (cmd_c05 demo False demo_file)) @
                    [Exec (''du -b '' @ lea5_path demo demo_file @ '' | cut -f1'')]\<rparr>) \<and>
   get (spread (demo_entry04 100 (Fin 20000000))
          (fields_c05 demo demo_file (demo_entry04 100 (Fin 20000000)) (Fin 95)
             (Num (Fin 4096)))) ''cTime0.5''
     = Num (Fin 95)"
proof -
  let ?c = "cmd_c04 demo False demo_file"
  let ?d = "cmd_c05 demo False demo_file"
  let ?E = "demo_entry04 100 (Fin 20000000)"
  let ?s1 = "\<lparr>world = (120, [(Exited 0 [], 95), (Exited 0 [], 130)]), trace = [Exec ?c]\<rparr>"
  let ?s2 = "\<lparr>world = (215, [(Exited 0 [], 130)]), trace = [Exec ?c, Exec ?c]\<rparr>"
  let ?s3 = "\<lparr>world = (345 :: int, [] :: (proc \<times> int) list),
              trace = [Exec ?c, Exec ?c, Exec ?c]\<rparr>"
  let ?s4 = "\<lparr>world = (345 :: int, [] :: (proc \<times> int) list),
              trace = [Exec ?c, Exec ?c, Exec ?c] @
                      [Exec (''du -b '' @ lea4_path demo demo_file @ '' | cut -f1'')]\<rparr>"
  let ?t1 = "\<lparr>world = (120, [(Exited 0 [], 95), (Exited 0 [], 130)]), trace = [Exec ?d]\<rparr>"
  let ?t2 = "\<lparr>world = (215, [(Exited 0 [], 130)]), trace = [Exec ?d, Exec ?d]\<rparr>"
  let ?t3 = "\<lparr>world = (345 :: int, [] :: (proc \<times> int) list),
              trace = [Exec ?d, Exec ?d, Exec ?d]\<rparr>"
  let ?t4 = "\<lparr>world = (345 :: int, [] :: (proc \<times> int) list),
              trace = [Exec ?d, Exec ?d, Exec ?d] @
                      [Exec (''du -b '' @ lea5_path demo demo_file @ '' | cut -f1'')]\<rparr>"
  have r1: "runSync demo ?c (demo_sys script_ok) = Some (\<lparr>time = 120, result = Inr []\<rparr>, ?s1)"
    by (simp add: run_defs script_ok_def)
  have r2: "runSync demo ?c ?s1 = Some (\<lparr>time = 95, result = Inr []\<rparr>, ?s2)"
    by (simp add: run_defs)
  have r3: "runSync demo ?c ?s2 = Some (\<lparr>time = 130, result = Inr []\<rparr>, ?s3)"
    by (simp add: run_defs)
  have sz: "sizeOf demo False (lea4_path demo demo_file) ?s3 = Some (Inr (Num (Fin 4096)), ?s4)"
    by (rule demo_sizeOf)
  have q1: "runSync demo ?d (demo_sys script_ok) = Some (\<lparr>time = 120, result = Inr []\<rparr>, ?t1)"
    by (simp add: run_defs script_ok_def)
  have q2: "runSync demo ?d ?t1 = Some (\<lparr>time = 95, result = Inr []\<rparr>, ?t2)"
    by (simp add: run_defs)
  have q3: "runSync demo ?d ?t2 = Some (\<lparr>time = 130, result = Inr []\<rparr>, ?t3)"
    by (simp add: run_defs)
  have sq: "sizeOf demo False (lea5_path demo demo_file) ?t3 = Some (Inr (Num (Fin 4096)), ?t4)"
    by (rule demo_sizeOf)
  have fi: "findIndex (same_sha demo_file) [?E] = Some 0"
    by (rule demo_same_sha)
  have c1: "dateNow demo (world (demo_sys script_ok)) \<le> dateNow demo (world ?s1)"
    by (simp add: demo_sys_def)
  have c2: "dateNow demo (world ?s1) \<le> dateNow demo (world ?s2)" by simp
  have c3: "dateNow demo (world ?s2) \<le> dateNow demo (world ?s3)" by simp
  have d1: "dateNow demo (world (demo_sys script_ok)) \<le> dateNow demo (world ?t1)"
    by (simp add: demo_sys_def)
  have d2: "dateNow demo (world ?t1) \<le> dateNow demo (world ?t2)" by simp
  have d3: "dateNow demo (world ?t2) \<le> dateNow demo (world ?t3)" by simp
  have m: "(95 :: int) = min (time \<lparr>time = 120, result = Inr []\<rparr>)
      (min (time \<lparr>time = 95, result = Inr []\<rparr>) (time \<lparr>time = 130, result = Inr []\<rparr>))"
    by simp
  let ?r1 = "\<lparr>time = 120 :: int, result = Inr [] :: error + string\<rparr>"
  let ?r2 = "\<lparr>time = 95 :: int, result = Inr [] :: error + string\<rparr>"
  let ?r3 = "\<lparr>time = 130 :: int, result = Inr [] :: error + string\<rparr>"
  note T4 = compress_time_is_min_of_three_runs [OF c1 c2 c3 r1 r2 r3 m,
      where isWindows = False and ?file = demo_file and report = "[]"
        and compressedSize = "Num (Fin 4096)" and ?s4.0 = ?s4]
  from T4 sz
  have "compress04 demo False demo_file ([], demo_sys script_ok) =
      Some ([] @ [spread demo_file (fields_c04 demo demo_file (Fin (of_int 95)) (Num (Fin 4096)))],
            ?s4) \<and>
    get (spread demo_file (fields_c04 demo demo_file (Fin (of_int 95)) (Num (Fin 4096))))
      ''cTime0.4'' = Num (Fin (of_int 95))"
    by blast
  then have a: "compress04 demo False demo_file ([], demo_sys script_ok) =
      Some ([spread demo_file (fields_c04 demo demo_file (Fin 95) (Num (Fin 4096)))], ?s4) \<and>
    get (spread demo_file (fields_c04 demo demo_file (Fin 95) (Num (Fin 4096)))) ''cTime0.4''
      = Num (Fin 95)"
    by simp
  note T5 = compress_time_is_min_of_three_runs [OF d1 d2 d3 q1 q2 q3 m,
      where isWindows = False and ?file = demo_file and report = "[?E]" and i = 0
        and compressedSize = "Num (Fin 4096)" and ?s4.0 = ?t4]
  from T5 have "runTimes 3 demo ?d (demo_sys script_ok) = Some ([time ?r1, time ?r2, time ?r3], ?t3)"
    by blast
  then have b1: "runTimes 3 demo ?d (demo_sys script_ok) = Some ([120, 95, 130], ?t3)"
    by simp
  from T5 sq fi
  have "compress05 demo False demo_file ([?E], demo_sys script_ok) =
      Some ([?E][0 := spread ([?E] ! 0)
               (fields_c05 demo demo_file ([?E] ! 0) (Fin (of_int 95)) (Num (Fin 4096)))], ?t4) \<and>
    get ([?E][0 := spread ([?E] ! 0)
            (fields_c05 demo demo_file ([?E] ! 0) (Fin (of_int 95)) (Num (Fin 4096)))] ! 0)
      ''cTime0.5'' = Num (Fin (of_int 95))"
    by blast
  then have b2: "compress05 demo False demo_file ([?E], demo_sys script_ok) =
      Some ([spread ?E (fields_c05 demo demo_file ?E (Fin 95) (Num (Fin 4096)))], ?t4) \<and>
    get (spread ?E (fields_c05 demo demo_file ?E (Fin 95) (Num (Fin 4096)))) ''cTime0.5''
      = Num (Fin 95)"
    by simp
  note b = b1 b2
  from r1 a b fi show ?thesis by (simp add: numeral_3_eq_3)
qed

theorem one_failed_run_is_recorded_as_failure:
  "runSync demo (cmd_c04 demo False demo_file) (demo_sys script_one_fails) =
     Some (\<lparr>time = 120, result = Inr []\<rparr>,
           \<lparr>world = (120, [(Exited 2 [], 95), (Exited 0 [], 130)]),
            trace = [Exec (cmd_c04 demo False demo_file)]\<rparr>) \<and>
   runSync demo (cmd_c04 demo False demo_file)
       \<lparr>world = (120, [(Exited 2 [], 95), (Exited 0 [], 130)]),
        trace = [Exec (cmd_c04 demo False demo_file)]\<rparr> =
     Some (\<lparr>time = - 1, result = Inl (ExecError 2)\<rparr>,
           \<lparr>world = (215, [(Exited 0 [], 130)]),
            trace = [Exec (cmd_c04 demo False demo_file),
                     Exec (cmd_c04 demo False demo_file)]\<rparr>) \<and>
   runSync demo (cmd_c04 demo False demo_file)
       \<lparr>world = (215, [(Exited 0 [], 130)]),
        trace = [Exec (cmd_c04 demo False demo_file), Exec (cmd_c04 demo False demo_file)]\<rparr> =
     Some (\<lparr>time = 130, result = Inr []\<rparr>,
           \<lparr>world = (345, []),
            trace = [Exec (cmd_c04 demo False demo_file), Exec (cmd_c04 demo False demo_file),
                     Exec (cmd_c04 demo False demo_file)]\<rparr>) \<and>
   map_option fst (compress04 demo False demo_file ([], demo_sys script_one_fails)) =
     Some [demo_entry04 (- 1) (Fin (- 2000000000))] \<and>
   get (demo_entry04 (- 1) (Fin (- 2000000000))) ''cTime0.4'' = Num (Fin (- 1)) \<and>
   runTimes 3 demo (cmd_c05 demo False demo_file) (demo_sys script_one_fails) =
     Some ([120, - 1, 130],
           \<lparr>world = (345, []),
            trace = [Exec (cmd_c05 demo False demo_file), Exec (cmd_c05 demo False demo_file),
                     Exec (cmd_c05 demo False demo_file)]\<rparr>) \<and>
   map_option fst (compress05 demo False demo_file
       ([demo_entry04 100 (Fin 20000000)], demo_sys script_one_fails)) =
     Some [demo_entry05 100 (Fin 20000000) (- 1) (Fin (- 2000000000))] \<and>
   get (demo_entry05 100 (Fin 20000000) (- 1) (Fin (- 2000000000))) ''cTime0.5'' = Num (Fin (- 1))"
proof -
  let ?c = "cmd_c04 demo False demo_file"
  have a: "runSync demo ?c (demo_sys script_one_fails) =
     Some (\<lparr>time = 120, result = Inr []\<rparr>,
           \<lparr>world = (120, [(Exited 2 [], 95), (Exited 0 [], 130)]), trace = [Exec ?c]\<rparr>)"
    by (simp add: run_defs script_one_fails_def)
  have b: "runSync demo ?c
       \<lparr>world = (120, [(Exited 2 [], 95), (Exited 0 [], 130)]), trace = [Exec ?c]\<rparr> =
     Some (\<lparr>time = - 1, result = Inl (ExecError 2)\<rparr>,
           \<lparr>world = (215, [(Exited 0 [], 130)]), trace = [Exec ?c, Exec ?c]\<rparr>)"
    by (simp add: run_defs)
  have c: "runSync demo ?c \<lparr>world = (215, [(Exited 0 [], 130)]), trace = [Exec ?c, Exec ?c]\<rparr> =
     Some (\<lparr>time = 130, result = Inr []\<rparr>,
           \<lparr>world = (345, []), trace = [Exec ?c, Exec ?c, Exec ?c]\<rparr>)"
    by (simp add: run_defs)
  have d: "map_option fst (compress04 demo False demo_file ([], demo_sys script_one_fails)) =
     Some [spread demo_file (fields_c04 demo demo_file (Fin (- 1)) (Num (Fin 4096)))]"
    by (simp add: runTimes_3 a b c demo_sizeOf)
  have e: "get (demo_entry04 (- 1) (Fin (- 2000000000))) ''cTime0.4'' = Num (Fin (- 1))"
    by (simp add: demo_entry04_def get_def)
  have f: "runTimes 3 demo (cmd_c05 demo False demo_file) (demo_sys script_one_fails) =
     Some ([120, - 1, 130],
           \<lparr>world = (345, []),
            trace = [Exec (cmd_c05 demo False demo_file), Exec (cmd_c05 demo False demo_file),
                     Exec (cmd_c05 demo False demo_file)]\<rparr>)"
    unfolding script_one_fails_def demo_runTimes_script by simp
  have g: "map_option fst (compress05 demo False demo_file
       ([demo_entry04 100 (Fin 20000000)], demo_sys script_one_fails)) =
     Some [demo_entry05 100 (Fin 20000000) (- 1) (Fin (- 2000000000))]"
    unfolding script_one_fails_def demo_compress05 by (simp add: demo_entry5)
  have h: "get (demo_entry05 100 (Fin 20000000) (- 1) (Fin (- 2000000000))) ''cTime0.5''
      = Num (Fin (- 1))"
    by (simp add: demo_entry05_def demo_entry04_def get_def)
  show ?thesis
    unfolding d demo_entry using a b c e f g h by simp
qed

section \<open>A command that never exits\<close>

lemma runTimes_blocked:
  "fst (run e cmd (world s)) = NeverExits \<Longrightarrow> runTimes 3 e cmd s = None"
  by (simp add: runTimes_3 runSync_None_iff [symmetric])

lemma runSync_failed_iff:
  assumes "runSync e cmd s = Some (r, s')"
  shows "isl (result r) \<longleftrightarrow>
           fst (run e cmd (world s)) = NotLaunched \<or>
           (\<exists>c out. c \<noteq> 0 \<and> fst (run e cmd (world s)) = Exited c out)"
  using assms
  by (auto simp: runSync_def execSync_def Let_def
           split: option.splits sum.splits prod.splits proc.splits if_splits)

text \<open>
  C9 (as amended). No compressor or decompressor run has a timeout: \<open>runSync\<close> hands the
  command to \<open>execSync\<close> with the encoding as its only option, so it returns exactly when
  the command exits or cannot be launched, and a command that never exits blocks
  \<open>runSync\<close>, the callback, the loop and the whole benchmark for ever. The failures
  \<open>runSync\<close> knows are a launch error and a non-zero exit status; each is recorded as the
  time \<open>-1\<close>.
\<close>

theorem hung_invocation_blocks_the_run:
  "(runSync e cmd s = None \<longleftrightarrow> fst (run e cmd (world s)) = NeverExits) \<and>
   (runSync e cmd s = Some (r, s') \<longrightarrow>
      (isl (result r) \<longleftrightarrow>
         fst (run e cmd (world s)) = NotLaunched \<or>
         (\<exists>c out. c \<noteq> 0 \<and> fst (run e cmd (world s)) = Exited c out)) \<and>
      (isl (result r) \<longrightarrow> time r = - 1)) \<and>
   (fst (run e (cmd_c04 e w file) (world s)) = NeverExits \<longrightarrow>
      compress04 e w file (report, s) = None \<and>
      forEach (compress04 e w) (file # rest) (report, s) = None \<and>
      benchmark e w (file # rest) s = None)"
proof (intro conjI impI)
  show "runSync e cmd s = None \<longleftrightarrow> fst (run e cmd (world s)) = NeverExits"
    by (rule runSync_None_iff)
next
  assume "runSync e cmd s = Some (r, s')"
  then show "isl (result r) \<longleftrightarrow>
         fst (run e cmd (world s)) = NotLaunched \<or>
         (\<exists>c out. c \<noteq> 0 \<and> fst (run e cmd (world s)) = Exited c out)"
    by (rule runSync_failed_iff)
next
  assume "runSync e cmd s = Some (r, s')" "isl (result r)"
  then show "time r = - 1" by (rule runSync_Some(3))
next
  assume h: "fst (run e (cmd_c04 e w file) (world s)) = NeverExits"
  show c: "compress04 e w file (report, s) = None"
    by (simp add: runTimes_blocked[OF h])
  then show "forEach (compress04 e w) (file # rest) (report, s) = None" by simp
  have "compress04 e w file ([], s) = None"
    by (simp add: runTimes_blocked[OF h])
  then show "benchmark e w (file # rest) s = None"
    by (simp add: benchmark_def)
qed

lemma demo_valid_png: "valid_ext ''/in/a.png''"
  by (simp add: valid_ext_def validFileExtensions_def path_defs Let_def)

lemma demo_clean_png:
  "cleanList demo [''/in/a.png''] \<lparr>world = w, trace = tr\<rparr> =
     (Inr [[(''fullname'', Str ''/in/a.png''), (''filename'', Str ''a.png''),
            (''originalSize'', Num (Fin 10)), (''originalsha256'', Str ''h1'')]],
      \<lparr>world = w, trace = tr @ [Hash ''/in/a.png'']\<rparr>)"
  by (simp add: cleanList_def demo_valid_png deduper_def dedup_entry_def demo_table_def logged_def
      basename_def)

lemma demo_getAllFiles:
  "getAllFiles demo [''/in/a.png''] \<lparr>world = w, trace = tr\<rparr> =
     (Inr [demo_file],
      \<lparr>world = w,
       trace = tr @ [Hash ''/in/a.png'', Convert ''/app/img/a.png'' ''/app/tmp/ppm/a.png.ppm'',
                     Hash ''/app/tmp/ppm/a.png.ppm'']\<rparr>)"
  by (simp add: getAllFiles_def demo_clean_png toTestbed_def placeImage_def get_def
      delete_key_def normalizeToPPM_def normalizeOne_def convert_def to_str_def path_defs Let_def
      getPPMStatistics_def ppmStatistics_def demo_table_def logged_def demo_file_def)

lemma demo_probes:
  "haveGm demo False (demo_sys ((Exited 0 [], 0) # (Exited 0 [], 0) # rest)) =
     Some (Inr (Buffer []), \<lparr>world = (0, (Exited 0 [], 0) # rest), trace = [Exec ''gm version'']\<rparr>)"
  "haveWine demo False \<lparr>world = (0, (Exited 0 [], 0) # rest), trace = [Exec ''gm version'']\<rparr> =
     Some (Inr (Buffer []),
           \<lparr>world = (0, rest), trace = [Exec ''gm version'', Exec ''wine --version'']\<rparr>)"
  by (simp_all add: haveGm_def haveWine_def execSync_def demo_run_def demo_sys_def)

theorem hung_compressor_blocks_for_ever:
  "runSync demo (cmd_c04 demo False demo_file) (demo_sys [(NeverExits, 0)]) = None \<and>
   main demo False [''/in/a.png''] (demo_sys [(Exited 0 [], 0), (Exited 0 [], 0), (NeverExits, 0)])
     = None"
proof -
  have a: "runSync demo (cmd_c04 demo False demo_file) (demo_sys [(NeverExits, 0)]) = None"
    by (simp add: run_defs)
  have "runTimes 3 demo (cmd_c04 demo False demo_file) \<lparr>world = (0, [(NeverExits, 0)]), trace = tr\<rparr> = None" for tr
    by (simp add: runTimes_3 run_defs)
  then have b: "main demo False [''/in/a.png'']
      (demo_sys [(Exited 0 [], 0), (Exited 0 [], 0), (NeverExits, 0)]) = None"
    by (simp add: main_def demo_probes processEverything_def processReport_def demo_getAllFiles
        benchmark_def)
  from a b show ?thesis by blast
qed

theorem hung_invocation_witness:
  "fst (run demo (cmd_c04 demo False demo_file) (world (demo_sys [(NeverExits, 0)]))) = NeverExits \<and>
   runSync demo (cmd_c04 demo False demo_file) (demo_sys [(NeverExits, 0)]) = None \<and>
   compress04 demo False demo_file ([], demo_sys [(NeverExits, 0)]) = None \<and>
   forEach (compress04 demo False) [demo_file] ([], demo_sys [(NeverExits, 0)]) = None \<and>
   benchmark demo False [demo_file] (demo_sys [(NeverExits, 0)]) = None \<and>
   runSync demo (cmd_c04 demo False demo_file) (demo_sys [(Exited 2 [], 5)]) =
     Some (\<lparr>time = - 1, result = Inl (ExecError 2)\<rparr>,
           \<lparr>world = (5, []), trace = [Exec (cmd_c04 demo False demo_file)]\<rparr>) \<and>
   fst (run demo (cmd_c04 demo False demo_file) (world (demo_sys [(Exited 2 [], 5)])))
     = Exited 2 []"
proof -
  let ?c = "cmd_c04 demo False demo_file"
  have h: "fst (run demo ?c (world (demo_sys [(NeverExits, 0)]))) = NeverExits"
    by (simp add: demo_run_def demo_sys_def)
  have r: "runSync demo ?c (demo_sys [(Exited 2 [], 5)]) =
     Some (\<lparr>time = - 1, result = Inl (ExecError 2)\<rparr>,
           \<lparr>world = (5, []), trace = [Exec ?c]\<rparr>)"
    by (simp add: run_defs)
  have p: "fst (run demo ?c (world (demo_sys [(Exited 2 [], 5)]))) = Exited 2 []"
    by (simp add: demo_run_def demo_sys_def)
  from hung_invocation_blocks_the_run [where e = demo and w = False and ?file = demo_file
      and cmd = ?c and s = "demo_sys [(NeverExits, 0)]" and report = "[]" and rest = "[]"] h
  have n: "runSync demo ?c (demo_sys [(NeverExits, 0)]) = None \<and>
      compress04 demo False demo_file ([], demo_sys [(NeverExits, 0)]) = None \<and>
      forEach (compress04 demo False) [demo_file] ([], demo_sys [(NeverExits, 0)]) = None \<and>
      benchmark demo False [demo_file] (demo_sys [(NeverExits, 0)]) = None"
    by blast
  from h n r p show ?thesis by blast
qed

section \<open>Deduplication\<close>

lemma same_key_entry [simp]: "same_key n h (dedup_entry c m g) \<longleftrightarrow> m = n \<and> g = h"
  by (auto simp: same_key_def dedup_entry_def get_def)

lemma find_None_filter: "find P xs = None \<longleftrightarrow> filter P xs = []"
  by (auto simp: find_None_iff filter_empty_conv)

lemma deduper_Inr:
  assumes "deduper e acc c s = (Inr acc', s')"
  shows "\<exists>m g. statSize e c (world s) = Some m \<and> sha256 e c (world s) = Some g \<and>
           s' = logged (Hash c) s \<and>
           acc' = (if m = 0 \<or> filter (same_key m g) acc \<noteq> [] then acc
                   else acc @ [dedup_entry c m g])"
  using assms
  by (auto simp: deduper_def Let_def find_None_filter [symmetric] split: option.splits if_splits)

lemma deduper_ok:
  assumes "statSize e c (world s) = Some m" "sha256 e c (world s) = Some g"
  shows "deduper e acc c s =
           (Inr (if m = 0 \<or> filter (same_key m g) acc \<noteq> [] then acc
                 else acc @ [dedup_entry c m g]), logged (Hash c) s)"
  using assms
  by (auto simp: deduper_def Let_def find_None_filter [symmetric] split: option.splits)

lemma logged_simps [simp]:
  "world (logged ev s) = world s" "trace (logged ev s) = trace s @ [ev]"
  by (simp_all add: logged_def)

lemma reduce_deduper_spec:
  assumes "\<And>c. c \<in> set cs \<Longrightarrow> statSize e c (world s) \<noteq> None \<and> sha256 e c (world s) \<noteq> None"
    and "\<And>a. a \<in> set acc \<Longrightarrow> \<exists>c n h. a = dedup_entry c n h \<and> n \<noteq> 0 \<and> c \<in> C \<and> has_key e (world s) n h c"
    and "set cs \<subseteq> C"
  shows "\<exists>recs s'. reduce_deduper e acc cs s = (Inr recs, s') \<and>
           world s' = world s \<and> trace s' = trace s @ map Hash cs \<and>
           (\<forall>r\<in>set recs. \<exists>c n h. r = dedup_entry c n h \<and> n \<noteq> 0 \<and> c \<in> C \<and>
               has_key e (world s) n h c) \<and>
           (\<forall>n h. n \<noteq> 0 \<longrightarrow> filter (same_key n h) recs =
               (if filter (same_key n h) acc \<noteq> [] then filter (same_key n h) acc
                else case find (has_key e (world s) n h) cs of
                       None \<Rightarrow> [] | Some c0 \<Rightarrow> [dedup_entry c0 n h]))"
  using assms
proof (induction cs arbitrary: acc s)
  case Nil
  then show ?case by simp
next
  case (Cons c cs)
  from Cons.prems(1)[of c] obtain m g
    where mg: "statSize e c (world s) = Some m" "sha256 e c (world s) = Some g" by auto
  define acc' where "acc' = (if m = 0 \<or> filter (same_key m g) acc \<noteq> [] then acc
                 else acc @ [dedup_entry c m g])"
  have step: "deduper e acc c s = (Inr acc', logged (Hash c) s)"
    unfolding acc'_def by (rule deduper_ok[OF mg])
  have p1: "\<And>c'. c' \<in> set cs \<Longrightarrow> statSize e c' (world (logged (Hash c) s)) \<noteq> None \<and>
      sha256 e c' (world (logged (Hash c) s)) \<noteq> None"
    using Cons.prems(1) by simp
  have p2: "\<And>a. a \<in> set acc' \<Longrightarrow> \<exists>c' n h. a = dedup_entry c' n h \<and> n \<noteq> 0 \<and> c' \<in> C \<and>
      has_key e (world (logged (Hash c) s)) n h c'"
    using Cons.prems(2,3) mg unfolding acc'_def by (auto simp: has_key_def split: if_splits)
  have p3: "set cs \<subseteq> C" using Cons.prems(3) by simp
  from Cons.IH[of "logged (Hash c) s" acc', OF p1 p2 p3]
  obtain recs s' where ih: "reduce_deduper e acc' cs (logged (Hash c) s) = (Inr recs, s')"
      "world s' = world s" "trace s' = trace s @ Hash c # map Hash cs"
      "\<forall>r\<in>set recs. \<exists>c n h. r = dedup_entry c n h \<and> n \<noteq> 0 \<and> c \<in> C \<and>
               has_key e (world s) n h c"
      "\<forall>n h. n \<noteq> 0 \<longrightarrow> filter (same_key n h) recs =
               (if filter (same_key n h) acc' \<noteq> [] then filter (same_key n h) acc'
                else case find (has_key e (world s) n h) cs of
                       None \<Rightarrow> [] | Some c0 \<Rightarrow> [dedup_entry c0 n h])"
    by auto
  have key: "filter (same_key n h) recs =
               (if filter (same_key n h) acc \<noteq> [] then filter (same_key n h) acc
                else case find (has_key e (world s) n h) (c # cs) of
                       None \<Rightarrow> [] | Some c0 \<Rightarrow> [dedup_entry c0 n h])" if n: "n \<noteq> 0" for n h
  proof (cases "m = n \<and> g = h")
    case True
    then have hk: "has_key e (world s) n h c" using mg by (simp add: has_key_def)
    show ?thesis
    proof (cases "filter (same_key n h) acc = []")
      case True
      with \<open>m = n \<and> g = h\<close> n have "acc' = acc @ [dedup_entry c n h]"
        by (auto simp: acc'_def)
      with True ih(5) n hk show ?thesis by auto
    next
      case False
      with \<open>m = n \<and> g = h\<close> have "acc' = acc" by (auto simp: acc'_def)
      with False ih(5) n show ?thesis by auto
    qed
  next
    case False
    then have nk: "\<not> has_key e (world s) n h c" using mg by (auto simp: has_key_def)
    from False have "filter (same_key n h) acc' = filter (same_key n h) acc"
      by (auto simp: acc'_def)
    with ih(5) n nk show ?thesis by auto
  qed
  from step ih(1-4) key show ?case by auto
qed

text \<open>
  C5 (as amended). When every candidate (a walked path with an image extension) can be
  stat'ed and hashed, \<open>cleanList\<close> returns, having hashed every candidate in order. Its records all have a
  size other than zero, so zero-byte files produce none; and for each pair of a size
  other than zero and a hash, the records with that pair are exactly one, made from the
  first candidate with that pair, when some candidate has it, and none otherwise.
\<close>

theorem cleanList_keeps_first_of_each_key:
  assumes "\<And>c. c \<in> set files \<Longrightarrow> valid_ext c \<Longrightarrow>
             statSize e c (world s) \<noteq> None \<and> sha256 e c (world s) \<noteq> None"
  shows "\<exists>recs s'. cleanList e files s = (Inr recs, s') \<and> world s' = world s \<and>
           trace s' = trace s @ map Hash (filter valid_ext files) \<and>
           (\<forall>r\<in>set recs. \<exists>c n h. r = dedup_entry c n h \<and> n \<noteq> 0 \<and>
               c \<in> set files \<and> valid_ext c \<and> has_key e (world s) n h c) \<and>
           (\<forall>n h. n \<noteq> 0 \<longrightarrow> filter (same_key n h) recs =
               (case find (has_key e (world s) n h) (filter valid_ext files) of
                  None \<Rightarrow> [] | Some c0 \<Rightarrow> [dedup_entry c0 n h]))"
proof -
  have 1: "\<And>c. c \<in> set (filter valid_ext files) \<Longrightarrow>
      statSize e c (world s) \<noteq> None \<and> sha256 e c (world s) \<noteq> None"
    using assms by simp
  have 2: "\<And>a. a \<in> set [] \<Longrightarrow> \<exists>c n h. a = dedup_entry c n h \<and> n \<noteq> 0 \<and>
      c \<in> {c \<in> set files. valid_ext c} \<and> has_key e (world s) n h c"
    by simp
  have 3: "set (filter valid_ext files) \<subseteq> {c \<in> set files. valid_ext c}" by auto
  from reduce_deduper_spec[where acc = "[]" and C = "{c \<in> set files. valid_ext c}", OF 1 2 3]
  show ?thesis
    unfolding cleanList_def by simp
qed

lemma demo_valid:
  "valid_ext ''/in/a.png''" "valid_ext ''/in/b.png''" "valid_ext ''/in/empty.png''"
  "\<not> valid_ext ''/in/notes.txt''"
  by (simp_all add: valid_ext_def validFileExtensions_def path_defs Let_def)

lemma demo_candidates: "filter valid_ext demo_walk = [''/in/a.png'', ''/in/empty.png'', ''/in/b.png'']"
  by (simp add: demo_walk_def demo_valid)

theorem cleanList_witness:
  "filter valid_ext demo_walk = [''/in/a.png'', ''/in/empty.png'', ''/in/b.png''] \<and>
   has_key demo (0, []) 10 ''h1'' ''/in/a.png'' \<and>
   has_key demo (0, []) 0 ''h0'' ''/in/empty.png'' \<and>
   has_key demo (0, []) 10 ''h1'' ''/in/b.png'' \<and>
   cleanList demo demo_walk (demo_sys []) =
     (Inr [dedup_entry ''/in/a.png'' 10 ''h1''],
      \<lparr>world = (0, []),
       trace = [Hash ''/in/a.png'', Hash ''/in/empty.png'', Hash ''/in/b.png'']\<rparr>) \<and>
   filter (same_key 10 ''h1'') [dedup_entry ''/in/a.png'' 10 ''h1'']
     = [dedup_entry ''/in/a.png'' 10 ''h1'']"
proof -
  have k: "has_key demo (0, []) 10 ''h1'' ''/in/a.png''"
      "has_key demo (0, []) 0 ''h0'' ''/in/empty.png''"
      "has_key demo (0, []) 10 ''h1'' ''/in/b.png''"
    by (simp_all add: has_key_def demo_table_def)
  have hyp: "\<And>c. c \<in> set demo_walk \<Longrightarrow> valid_ext c \<Longrightarrow>
      statSize demo c (world (demo_sys [])) \<noteq> None \<and> sha256 demo c (world (demo_sys [])) \<noteq> None"
    by (auto simp: demo_walk_def demo_table_def demo_valid)
  have run: "cleanList demo demo_walk (demo_sys []) =
     (Inr [dedup_entry ''/in/a.png'' 10 ''h1''],
      \<lparr>world = (0, []),
       trace = [Hash ''/in/a.png'', Hash ''/in/empty.png'', Hash ''/in/b.png'']\<rparr>)"
    by (simp add: cleanList_def demo_candidates deduper_def demo_table_def logged_def demo_sys_def)
  have f: "find (has_key demo (world (demo_sys [])) 10 ''h1'') (filter valid_ext demo_walk)
      = Some ''/in/a.png''"
    by (simp add: demo_candidates demo_sys_def k)
  from cleanList_keeps_first_of_each_key [of demo_walk demo "demo_sys []", OF hyp] run f
  have "filter (same_key 10 ''h1'') [dedup_entry ''/in/a.png'' 10 ''h1'']
     = [dedup_entry ''/in/a.png'' 10 ''h1'']"
    by (auto split: option.splits)
  with demo_candidates k run show ?thesis by blast
qed

text \<open>
  Neither \<open>fs.statSync\<close> nor \<open>sha256File\<close> is inside a \<open>try\<close>: one candidate that cannot
  be read ends the reduction, and no record is returned, not even for the candidates
  already seen.
\<close>

theorem unreadable_candidate_ends_cleanList:
  "filter valid_ext [''/in/a.png'', ''/in/b.png'', ''/in/zz.png'']
     = [''/in/a.png'', ''/in/b.png'', ''/in/zz.png''] \<and>
   has_key demo (0, []) 10 ''h1'' ''/in/a.png'' \<and>
   has_key demo (0, []) 10 ''h1'' ''/in/b.png'' \<and>
   statSize demo ''/in/zz.png'' (0, []) = None \<and>
   cleanList demo [''/in/a.png'', ''/in/b.png'', ''/in/zz.png''] (demo_sys []) =
     (Inl FsError, \<lparr>world = (0, []), trace = [Hash ''/in/a.png'', Hash ''/in/b.png'']\<rparr>)"
proof -
  have v: "valid_ext ''/in/zz.png''"
    by (simp add: valid_ext_def validFileExtensions_def path_defs Let_def)
  have c: "filter valid_ext [''/in/a.png'', ''/in/b.png'', ''/in/zz.png'']
     = [''/in/a.png'', ''/in/b.png'', ''/in/zz.png'']"
    by (simp add: demo_valid v del: filter_id_conv)
  have k: "has_key demo (0, []) 10 ''h1'' ''/in/a.png''"
      "has_key demo (0, []) 10 ''h1'' ''/in/b.png''"
      "statSize demo ''/in/zz.png'' (0, []) = None"
    by (simp_all add: has_key_def demo_table_def)
  have run: "cleanList demo [''/in/a.png'', ''/in/b.png'', ''/in/zz.png''] (demo_sys []) =
     (Inl FsError, \<lparr>world = (0, []), trace = [Hash ''/in/a.png'', Hash ''/in/b.png'']\<rparr>)"
    by (simp add: cleanList_def demo_valid v deduper_def demo_table_def logged_def demo_sys_def)
  from c k run show ?thesis by blast
qed

section \<open>The keys of the file objects\<close>

lemma keys_update: "set (keys_of (AList.update k v ob)) = insert k (set (keys_of ob))"
  using dom_update[of k v ob] by (simp add: keys_of_def)

lemma keys_spread: "set (keys_of (spread ob kvs)) = set (keys_of ob) \<union> fst ` set kvs"
  by (induction kvs arbitrary: ob) (force simp: keys_update)+

lemma keys_delete_key: "set (keys_of (delete_key k ob)) = set (keys_of ob) - {k}"
  by (simp add: keys_of_def delete_key_def delete_keys)

lemma get_absent: "k \<notin> set (keys_of ob) \<Longrightarrow> get ob k = Undefined"
  by (simp add: get_def keys_of_def map_of_eq_None_iff [THEN iffD2])

lemma mapE_Inr:
  assumes "mapE f xs s = (Inr ys, s')"
  shows "list_all2 (\<lambda>x y. \<exists>a b. f x a = (Inr y, b)) xs ys"
  using assms
proof (induction xs arbitrary: s ys)
  case Nil
  then show ?case by simp
next
  case (Cons x xs)
  then show ?case
    by (auto split: prod.splits sum.splits)
qed

lemma list_all2_set_prop:
  assumes "list_all2 P xs ys" and "\<forall>x\<in>set xs. Q x" and "\<And>x y. Q x \<Longrightarrow> P x y \<Longrightarrow> R y"
  shows "\<forall>y\<in>set ys. R y"
  using assms by (induction rule: list_all2_induct) auto

lemma reduce_deduper_shape:
  assumes "reduce_deduper e acc cs s = (Inr recs, s')"
    and "\<And>a. a \<in> set acc \<Longrightarrow> \<exists>c n h. a = dedup_entry c n h"
  shows "\<forall>r\<in>set recs. \<exists>c n h. r = dedup_entry c n h"
  using assms
proof (induction cs arbitrary: acc s)
  case Nil
  then show ?case by auto
next
  case (Cons c cs)
  from Cons.prems(1) obtain acc' s1 where d: "deduper e acc c s = (Inr acc', s1)"
    and r: "reduce_deduper e acc' cs s1 = (Inr recs, s')"
    by (auto split: prod.splits sum.splits)
  from deduper_Inr[OF d] Cons.prems(2)
  have "\<And>a. a \<in> set acc' \<Longrightarrow> \<exists>c n h. a = dedup_entry c n h"
    by (fastforce split: if_splits)
  from Cons.IH[OF r this] show ?case .
qed

lemma placeImage_shape:
  assumes "placeImage e (dedup_entry c n h) s = (Inr y, s')"
  shows "y = [(''filename'', Str (basename c)), (''originalSize'', Num (Fin (real n))),
              (''originalsha256'', Str h)]"
  using assms
  by (auto simp: placeImage_def dedup_entry_def get_def delete_key_def copyFileSync_def
           split: sum.splits option.splits prod.splits)

lemma ppmStatistics_shape:
  assumes "ppmStatistics e file s = (Inr y, s')" and "keys_of file = [''filename'', ''originalSize'', ''originalsha256'']"
  shows "keys_of y = base_keys"
proof -
  from assms(2) obtain a b c where f: "file = [(''filename'', a), (''originalSize'', b), (''originalsha256'', c)]"
    by (auto simp: keys_of_def Cons_eq_map_conv)
  from assms(1) show ?thesis unfolding f
    by (auto simp: ppmStatistics_def Let_def keys_of_def base_keys_def split: option.splits)
qed

lemma getAllFiles_keys:
  assumes "getAllFiles e walked s = (Inr allFiles, s')"
  shows "\<forall>f\<in>set allFiles. keys_of f = base_keys"
proof -
  from assms obtain cleaned s1 placed s2 normalized s3
    where c: "cleanList e walked s = (Inr cleaned, s1)"
      and t: "toTestbed e cleaned s1 = (Inr placed, s2)"
      and n: "normalizeToPPM e placed s2 = (Inr normalized, s3)"
      and g: "getPPMStatistics e normalized s3 = (Inr allFiles, s')"
    by (auto simp: getAllFiles_def split: prod.splits sum.splits)
  from c have 1: "\<forall>r\<in>set cleaned. \<exists>c n h. r = dedup_entry c n h"
    unfolding cleanList_def by (rule reduce_deduper_shape) simp
  from t have "list_all2 (\<lambda>x y. \<exists>a b. placeImage e x a = (Inr y, b)) cleaned placed"
    unfolding toTestbed_def by (rule mapE_Inr)
  from this 1 have 2: "\<forall>y\<in>set placed. keys_of y = [''filename'', ''originalSize'', ''originalsha256'']"
    by (rule list_all2_set_prop) (auto simp: keys_of_def dest!: placeImage_shape)
  from n have 3: "normalized = placed"
    by (auto simp: normalizeToPPM_def split: prod.splits sum.splits)
  from g have "list_all2 (\<lambda>x y. \<exists>a b. ppmStatistics e x a = (Inr y, b)) normalized allFiles"
    unfolding getPPMStatistics_def by (rule mapE_Inr)
  from this 2 show ?thesis
    unfolding 3 by (rule list_all2_set_prop) (auto dest: ppmStatistics_shape)
qed

section \<open>What holds of every record\<close>

lemmas key_defs = base_keys_def c04_keys_def c05_keys_def d04_keys_def d05_keys_def

lemma fields_keys:
  "fst ` set (fields_c04 e file t sz) = set c04_keys"
  "fst ` set (fields_c05 e file old t sz) = set c05_keys"
  "fst ` set (fields_d04 e old t sz) = set d04_keys"
  "fst ` set (fields_d05 e old t sz) = set d05_keys"
  by (auto simp: fields_c04_def fields_c05_def fields_d04_def fields_d05_def Let_def key_defs)

lemma inv1_new:
  assumes "keys_of file = base_keys"
  shows "inv1 (spread file (fields_c04 e file t sz))"
  using assms by (simp add: inv1_def keys_spread fields_keys)

lemma inv1_inv2:
  assumes "inv1 r"
  shows "inv2 e r"
proof -
  have "''cTimeDiff'' \<notin> set (base_keys @ c04_keys)"
    by (simp add: key_defs)
  with assms have "''cTimeDiff'' \<notin> set (keys_of r)"
    unfolding inv1_def by blast
  moreover from assms have "set (keys_of r) \<subseteq> set (base_keys @ c04_keys @ c05_keys)"
    unfolding inv1_def by auto
  ultimately show ?thesis by (simp add: inv2_def diffs_c_def)
qed

lemma inv2_update:
  assumes "inv2 e old"
  shows "inv2 e (spread old (fields_c05 e file old (Fin t) sz))"
proof -
  let ?new = "spread old (fields_c05 e file old (Fin t) sz)"
  have k: "set (keys_of ?new) \<subseteq> set (base_keys @ c04_keys @ c05_keys)"
    using assms by (auto simp: inv2_def keys_spread fields_keys)
  have "get ?new ''cTimeDiff'' = Num (js_sub (Fin t) (to_number e (get old ''cTime0.4'')))"
    and "get ?new ''cTime0.5'' = Num (Fin t)"
    and "get ?new ''cTime0.4'' = get old ''cTime0.4''"
    and "get ?new ''cRatioDiff'' =
           Num (js_sub (ratio e sz (get file ''originalSize'')) (to_number e (get old ''cRatio0.4'')))"
    and "get ?new ''cRatio0.5'' = Num (ratio e sz (get file ''originalSize''))"
    and "get ?new ''cRatio0.4'' = get old ''cRatio0.4''"
    by (simp_all add: fields_c05_def Let_def get_update)
  then have "diffs_c e ?new"
    by (simp add: diffs_c_def to_number_def)
  with k show ?thesis by (simp add: inv2_def)
qed

lemma inv2_inv3: "inv2 e r \<Longrightarrow> inv3 e r"
  by (auto simp: inv2_def inv3_def)

lemma inv3_update:
  assumes "inv3 e old"
  shows "inv3 e (spread old (fields_d04 e old (Fin t) sz))"
proof -
  let ?new = "spread old (fields_d04 e old (Fin t) sz)"
  have k: "set (keys_of ?new) \<subseteq> set (base_keys @ c04_keys @ c05_keys @ d04_keys)"
    using assms by (auto simp: inv3_def keys_spread fields_keys)
  have m: "''cTimeDiff'' \<in> set (keys_of ?new) \<longleftrightarrow> ''cTimeDiff'' \<in> set (keys_of old)"
    by (simp add: keys_spread fields_keys d04_keys_def)
  have "get ?new ''cTimeDiff'' = get old ''cTimeDiff''"
    and "get ?new ''cTime0.5'' = get old ''cTime0.5''"
    and "get ?new ''cTime0.4'' = get old ''cTime0.4''"
    and "get ?new ''cRatioDiff'' = get old ''cRatioDiff''"
    and "get ?new ''cRatio0.5'' = get old ''cRatio0.5''"
    and "get ?new ''cRatio0.4'' = get old ''cRatio0.4''"
    by (simp_all add: fields_d04_def Let_def get_update)
  with assms m have "diffs_c e ?new"
    by (simp add: diffs_c_def inv3_def)
  with k show ?thesis by (simp add: inv3_def)
qed

lemma inv3_inv4:
  assumes "inv3 e r"
  shows "inv4 e r"
proof -
  have "''dTimeDiff'' \<notin> set (base_keys @ c04_keys @ c05_keys @ d04_keys)"
    and "''dTime0.5'' \<notin> set (base_keys @ c04_keys @ c05_keys @ d04_keys)"
    by (simp_all add: key_defs)
  with assms have "''dTimeDiff'' \<notin> set (keys_of r)" "''dTime0.5'' \<notin> set (keys_of r)"
    unfolding inv3_def by blast+
  moreover from assms
  have "set (keys_of r) \<subseteq> set (base_keys @ c04_keys @ c05_keys @ d04_keys @ d05_keys)"
    unfolding inv3_def by auto
  ultimately show ?thesis using assms by (simp add: inv3_def inv4_def diffs_d_def no_path_def)
qed

lemma inv4_update:
  assumes "inv4 e old"
  shows "inv4 e (delete_key ''ppmFile'' (spread old (fields_d05 e old (Fin t) sz)))"
proof -
  let ?mid = "spread old (fields_d05 e old (Fin t) sz)"
  let ?new = "delete_key ''ppmFile'' ?mid"
  have k: "set (keys_of ?new) \<subseteq> set (base_keys @ c04_keys @ c05_keys @ d04_keys @ d05_keys)"
    using assms by (auto simp: inv4_def keys_delete_key keys_spread fields_keys)
  have m: "''cTimeDiff'' \<in> set (keys_of ?new) \<longleftrightarrow> ''cTimeDiff'' \<in> set (keys_of old)"
    by (simp add: keys_delete_key keys_spread fields_keys d05_keys_def)
  have "get ?new ''cTimeDiff'' = get old ''cTimeDiff''"
    and "get ?new ''cTime0.5'' = get old ''cTime0.5''"
    and "get ?new ''cTime0.4'' = get old ''cTime0.4''"
    and "get ?new ''cRatioDiff'' = get old ''cRatioDiff''"
    and "get ?new ''cRatio0.5'' = get old ''cRatio0.5''"
    and "get ?new ''cRatio0.4'' = get old ''cRatio0.4''"
    by (simp_all add: fields_d05_def Let_def get_update get_delete_key)
  with assms m have c: "diffs_c e ?new"
    by (simp add: diffs_c_def inv4_def)
  have "get ?new ''dTimeDiff'' = Num (js_sub (Fin t) (to_number e (get old ''dTime0.4'')))"
    and "get ?new ''dTime0.5'' = Num (Fin t)"
    and "get ?new ''dTime0.4'' = get old ''dTime0.4''"
    and "get ?new ''roundTripDiff'' =
           Num (js_sub (to_number e (js_plus e (get old ''cTime0.5'') (Fin t)))
                  (to_number e (get old ''roundTrip0.4'')))"
    and "get ?new ''roundTrip0.5'' = js_plus e (get old ''cTime0.5'') (Fin t)"
    and "get ?new ''roundTrip0.4'' = get old ''roundTrip0.4''"
    by (simp_all add: fields_d05_def Let_def get_update get_delete_key)
  then have d: "diffs_d e ?new"
    by (simp add: diffs_d_def to_number_def)
  have p: "no_path ?new"
    by (simp add: no_path_def keys_delete_key)
  from k c d p show ?thesis by (simp add: inv4_def)
qed

lemma forEach_invariant:
  assumes "forEach f xs st = Some st'" and "P st"
    and "\<And>x a b. x \<in> set xs \<Longrightarrow> P a \<Longrightarrow> f x a = Some b \<Longrightarrow> P b"
  shows "P st'"
  using assms
proof (induction xs arbitrary: st)
  case Nil
  then show ?case by simp
next
  case (Cons x xs)
  from Cons.prems(1) obtain st1 where 1: "f x st = Some st1" and 2: "forEach f xs st1 = Some st'"
    by (auto split: option.splits)
  from Cons.prems(3)[OF _ Cons.prems(2) 1] have "P st1" by simp
  have "\<And>y a b. y \<in> set xs \<Longrightarrow> P a \<Longrightarrow> f y a = Some b \<Longrightarrow> P b"
    using Cons.prems(3) by (meson list.set_intros(2))
  from Cons.IH[OF 2 \<open>P st1\<close> this] show ?case .
qed

lemma all_update:
  assumes "\<forall>r\<in>set xs. Q r" and "Q y"
  shows "\<forall>r\<in>set (xs[i := y]). Q r"
  using assms set_update_subset_insert[of xs i y] by auto

lemma compress04_inv1:
  assumes "compress04 e w file (report, s) = Some (report', s')"
    and "keys_of file = base_keys" and "\<forall>r\<in>set report. inv1 r"
  shows "\<forall>r\<in>set report'. inv1 r"
  using compress04_cases[OF assms(1)] assms(2,3) by (auto simp: inv1_new)

lemma compress05_inv2:
  assumes "compress05 e w file (report, s) = Some (report', s')"
    and "\<forall>r\<in>set report. inv2 e r"
  shows "\<forall>r\<in>set report'. inv2 e r"
proof -
  from compress05_cases[OF assms(1)] show ?thesis
  proof
    assume "report' = report"
    with assms(2) show ?thesis by simp
  next
    assume "\<exists>i m sz. findIndex (same_sha file) report = Some i \<and>
       report' = report[i := spread (report ! i) (fields_c05 e file (report ! i) (Fin (of_int m)) sz)]"
    then obtain i m sz where i: "findIndex (same_sha file) report = Some i"
      and r: "report' = report[i := spread (report ! i) (fields_c05 e file (report ! i) (Fin (of_int m)) sz)]"
      by blast
    from findIndex_Some[OF i] assms(2) have "inv2 e (report ! i)" by simp
    then have "inv2 e (spread (report ! i) (fields_c05 e file (report ! i) (Fin (of_int m)) sz))"
      by (rule inv2_update)
    with assms(2) show ?thesis unfolding r by (rule all_update)
  qed
qed

lemma decompress04_inv3:
  assumes "decompress04 e w file (report, s) = Some (report', s')"
    and "\<forall>r\<in>set report. inv3 e r"
  shows "\<forall>r\<in>set report'. inv3 e r"
proof -
  from decompress04_cases[OF assms(1)] show ?thesis
  proof
    assume "report' = report"
    with assms(2) show ?thesis by simp
  next
    assume "\<exists>i m sz. findIndex (same_sha file) report = Some i \<and>
       report' = report[i := spread (report ! i) (fields_d04 e (report ! i) (Fin (of_int m)) sz)]"
    then obtain i m sz where i: "findIndex (same_sha file) report = Some i"
      and r: "report' = report[i := spread (report ! i) (fields_d04 e (report ! i) (Fin (of_int m)) sz)]"
      by blast
    from findIndex_Some[OF i] assms(2) have "inv3 e (report ! i)" by simp
    then have "inv3 e (spread (report ! i) (fields_d04 e (report ! i) (Fin (of_int m)) sz))"
      by (rule inv3_update)
    with assms(2) show ?thesis unfolding r by (rule all_update)
  qed
qed

lemma decompress05_inv4:
  assumes "decompress05 e w file (report, s) = Some (report', s')"
    and "\<forall>r\<in>set report. inv4 e r"
  shows "\<forall>r\<in>set report'. inv4 e r"
proof -
  from decompress05_cases[OF assms(1)] show ?thesis
  proof
    assume "report' = report"
    with assms(2) show ?thesis by simp
  next
    assume "\<exists>i m sz. findIndex (same_sha file) report = Some i \<and>
       report' = report[i := delete_key ''ppmFile''
          (spread (report ! i) (fields_d05 e (report ! i) (Fin (of_int m)) sz))]"
    then obtain i m sz where i: "findIndex (same_sha file) report = Some i"
      and r: "report' = report[i := delete_key ''ppmFile''
          (spread (report ! i) (fields_d05 e (report ! i) (Fin (of_int m)) sz))]"
      by blast
    from findIndex_Some[OF i] assms(2) have "inv4 e (report ! i)" by simp
    then have "inv4 e (delete_key ''ppmFile''
          (spread (report ! i) (fields_d05 e (report ! i) (Fin (of_int m)) sz)))"
      by (rule inv4_update)
    with assms(2) show ?thesis unfolding r by (rule all_update)
  qed
qed

lemma benchmark_inv4:
  assumes "benchmark e w allFiles s = Some (report, s')"
    and files: "\<forall>f\<in>set allFiles. keys_of f = base_keys"
  shows "\<forall>r\<in>set report. inv4 e r"
proof -
  from assms(1) obtain st1 st2 st3
    where 1: "forEach (compress04 e w) allFiles ([], s) = Some st1"
      and 2: "forEach (compress05 e w) allFiles st1 = Some st2"
      and 3: "forEach (decompress04 e w) allFiles st2 = Some st3"
      and 4: "forEach (decompress05 e w) allFiles st3 = Some (report, s')"
    by (auto simp: benchmark_def split: option.splits)
  have a: "\<forall>r\<in>set (fst st1). inv1 r"
    by (rule forEach_invariant[OF 1, where P = "\<lambda>st. \<forall>r\<in>set (fst st). inv1 r"])
       (use files in \<open>auto dest: compress04_inv1\<close>)
  then have "\<forall>r\<in>set (fst st1). inv2 e r" by (simp add: inv1_inv2)
  then have "\<forall>r\<in>set (fst st2). inv2 e r"
    by (rule forEach_invariant[OF 2, where P = "\<lambda>st. \<forall>r\<in>set (fst st). inv2 e r"])
       (auto dest: compress05_inv2)
  then have "\<forall>r\<in>set (fst st2). inv3 e r" by (simp add: inv2_inv3)
  then have "\<forall>r\<in>set (fst st3). inv3 e r"
    by (rule forEach_invariant[OF 3, where P = "\<lambda>st. \<forall>r\<in>set (fst st). inv3 e r"])
       (auto dest: decompress04_inv3)
  then have "\<forall>r\<in>set (fst st3). inv4 e r" by (simp add: inv3_inv4)
  then have "\<forall>r\<in>set (fst (report, s')). inv4 e r"
    by (rule forEach_invariant[OF 4, where P = "\<lambda>st. \<forall>r\<in>set (fst st). inv4 e r"])
       (auto dest: decompress05_inv4)
  then show ?thesis by simp
qed

lemma processReport_inv4:
  assumes "processReport e w walked s = Some (Inr report, s')"
  shows "\<forall>r\<in>set report. inv4 e r"
proof -
  from assms obtain allFiles s1 where g: "getAllFiles e walked s = (Inr allFiles, s1)"
    and b: "benchmark e w allFiles s1 = Some (report, s')"
    by (auto simp: processReport_def split: prod.splits sum.splits option.splits)
  from benchmark_inv4[OF b getAllFiles_keys[OF g]] show ?thesis .
qed

lemma demo_runTimes_gen:
  "runTimes 3 demo c
       \<lparr>world = (t, (Exited a [], x) # (Exited b [], y) # (Exited d [], z) # rest), trace = tr\<rparr> =
     Some ([if a = 0 then x else - 1, if b = 0 then y else - 1, if d = 0 then z else - 1],
           \<lparr>world = (t + x + y + z, rest), trace = tr @ [Exec c, Exec c, Exec c]\<rparr>)"
  by (simp add: runTimes_3 run_defs)

lemma demo_sizeOf_gen:
  "sizeOf demo w p \<lparr>world = (t, (Exited 0 out, 0) # rest), trace = tr\<rparr> =
     Some (Inr (if w then Str (takeWhile (\<lambda>c. c \<noteq> CHR '' '') out)
                else Num (demo_number (butlast out))),
           \<lparr>world = (t, rest),
            trace = tr @ [Exec (if w then ''wc -c '' @ p else ''du -b '' @ p @ '' | cut -f1'')]\<rparr>)"
  by (simp add: sizeOf_def run_defs)

lemma demo_sizeOf_fail:
  "sizeOf demo w p \<lparr>world = (t, (Exited 2 out, 0) # rest), trace = tr\<rparr> =
     Some (Inl (ExecError 2),
           \<lparr>world = (t, rest),
            trace = tr @ [Exec (if w then ''wc -c '' @ p else ''du -b '' @ p @ '' | cut -f1'')]\<rparr>)"
  by (simp add: sizeOf_def run_defs)

lemmas demo_eval = demo_runTimes_gen demo_sizeOf_gen demo_sizeOf_fail same_sha_def get_def
  fields_c04_def fields_c05_def fields_d04_def fields_d05_def speed_def ratio_def to_number_def
  js_sub_def js_plus_def demo_number_def delete_key_def inf_of_def

section \<open>The records of the report\<close>

lemma json_keys_subset: "set (json_keys (json_of_obj r)) \<subseteq> set (keys_of r)"
  by (induction r)
     (auto simp: json_keys_def json_of_obj_def keys_of_def split: option.splits)

lemma processEverything_Inr:
  assumes "processEverything e w walked s = Some (Inr doc, s')"
  shows "\<exists>report. processReport e w walked s = Some (Inr report, s') \<and>
           doc = JArray (map json_of_obj report)"
  using assms
  by (auto simp: processEverything_def stringify_def split: option.splits sum.splits prod.splits)

lemma inv4_keys:
  assumes "inv4 e r"
  shows "''isIdentical'' \<notin> set (keys_of r)" and "''fullname'' \<notin> set (keys_of r)"
proof -
  have "''isIdentical'' \<notin> set (base_keys @ c04_keys @ c05_keys @ d04_keys @ d05_keys)"
    and "''fullname'' \<notin> set (base_keys @ c04_keys @ c05_keys @ d04_keys @ d05_keys)"
    by (simp_all add: key_defs)
  with assms show "''isIdentical'' \<notin> set (keys_of r)" and "''fullname'' \<notin> set (keys_of r)"
    unfolding inv4_def by blast+
qed

lemma demo_bench_complete:
  "map_option fst (benchmark demo False [demo_file] \<lparr>world = (0, script_complete), trace = tr\<rparr>)
     = Some [demo_record]"
  by (simp add: benchmark_def script_complete_def demo_file_def demo_record_def demo_eval
           del: math_min.simps add: math_min_3)

lemma demo_report_complete:
  "map_option fst (processReport demo False [''/in/a.png''] (demo_sys script_complete))
     = Some (Inr [demo_record])"
proof -
  let ?S = "\<lparr>world = (0, script_complete),
             trace = [] @ [Hash ''/in/a.png'', Convert ''/app/img/a.png'' ''/app/tmp/ppm/a.png.ppm'',
                           Hash ''/app/tmp/ppm/a.png.ppm'']\<rparr>"
  from demo_bench_complete[of "trace ?S"]
  obtain S' where "benchmark demo False [demo_file] ?S = Some ([demo_record], S')"
    by auto
  then show ?thesis
    by (simp add: processReport_def demo_sys_def demo_getAllFiles)
qed

text \<open>
  C2. No record of any report carries an \<open>isIdentical\<close> key, neither in the report array
  nor in the document written from it: the two lines that would compute the fidelity
  check are commented out in both decompression callbacks.
\<close>

theorem report_has_no_isIdentical:
  assumes "processEverything e w walked s = Some (Inr doc, s')"
  shows "\<exists>report. processReport e w walked s = Some (Inr report, s') \<and>
           doc = JArray (map json_of_obj report) \<and>
           (\<forall>r\<in>set report. ''isIdentical'' \<notin> set (keys_of r) \<and>
                            ''isIdentical'' \<notin> set (json_keys (json_of_obj r)))"
proof -
  from processEverything_Inr[OF assms] obtain report
    where r: "processReport e w walked s = Some (Inr report, s')"
      and d: "doc = JArray (map json_of_obj report)" by blast
  from processReport_inv4[OF r] have "\<forall>r\<in>set report. ''isIdentical'' \<notin> set (keys_of r)"
    by (auto dest: inv4_keys(1))
  with json_keys_subset have "\<forall>r\<in>set report. ''isIdentical'' \<notin> set (keys_of r) \<and>
                            ''isIdentical'' \<notin> set (json_keys (json_of_obj r))"
    by blast
  with r d show ?thesis by blast
qed

theorem report_has_no_isIdentical_witness:
  "map_option fst (processEverything demo False [''/in/a.png''] (demo_sys script_complete))
     = Some (Inr (JArray [json_of_obj demo_record])) \<and>
   ''isIdentical'' \<notin> set (keys_of demo_record) \<and>
   ''isIdentical'' \<notin> set (json_keys (json_of_obj demo_record))"
proof -
  from demo_report_complete obtain S
    where r: "processReport demo False [''/in/a.png''] (demo_sys script_complete)
                = Some (Inr [demo_record], S)"
    by auto
  then have p: "processEverything demo False [''/in/a.png''] (demo_sys script_complete)
                = Some (Inr (JArray [json_of_obj demo_record]), S)"
    by (simp add: processEverything_def stringify_def)
  from report_has_no_isIdentical[OF p] r
  have "''isIdentical'' \<notin> set (keys_of demo_record) \<and>
        ''isIdentical'' \<notin> set (json_keys (json_of_obj demo_record))"
    by auto
  with p show ?thesis by simp
qed

lemma demo_bench_restore_fails:
  "map_option fst (benchmark demo True [demo_file] \<lparr>world = (0, script_restore_fails), trace = tr\<rparr>) =
     Some [[(''filename'', Str ''a.png''),
            (''originalSize'', Num (Fin 10)),
            (''originalsha256'', Str ''h1''),
            (''ppmFile'', Str ''/app/tmp/ppm/a.png.ppm''),
            (''ppmSize'', Num (Fin 2000000)), (''ppmsha256'', Str ''p1''),
            (''cTime0.4'', Num (Fin 100)), (''cSpeed0.4'', Num (Fin 20000000)),
            (''cSize0.4'', Str ''4096''),
            (''cRatio0.4'', Num (Fin 40960)),
            (''cRatioPPM0.4'', Num (Fin (128 / 625))),
            (''cTime0.5'', Num (Fin 150)),
            (''cSpeed0.5'', Num (Fin (40000000 / 3))),
            (''cSize0.5'', Str ''4000''),
            (''cRatio0.5'', Num (Fin 40000)),
            (''cRatioPPM0.5'', Num (Fin (1 / 5))),
            (''cTimeDiff'', Num (Fin 50)), (''cRatioDiff'', Num (Fin (- 960))),
            (''dTime0.4'', Num (Fin 30)),
            (''dSpeed0.4'', Num (Fin (200000000 / 3))),
            (''roundTrip0.4'', Num (Fin 130))]]"
  by (simp add: benchmark_def script_restore_fails_def demo_file_def demo_eval
           del: math_min.simps add: math_min_3)

text \<open>
  What the code does secure about paths: no record of the written report carries
  \<open>fullname\<close>, and a record that carries the Lea 0.5 decompression time carries no
  \<open>ppmFile\<close>.
\<close>

theorem report_paths:
  assumes "processEverything e w walked s = Some (Inr doc, s')"
  shows "\<exists>docs. doc = JArray docs \<and>
           (\<forall>d\<in>set docs. ''fullname'' \<notin> set (json_keys d) \<and>
              (''dTime0.5'' \<in> set (json_keys d) \<longrightarrow> ''ppmFile'' \<notin> set (json_keys d)))"
proof -
  from processEverything_Inr[OF assms] obtain report
    where r: "processReport e w walked s = Some (Inr report, s')"
      and d: "doc = JArray (map json_of_obj report)" by blast
  have "''fullname'' \<notin> set (json_keys (json_of_obj x)) \<and>
        (''dTime0.5'' \<in> set (json_keys (json_of_obj x)) \<longrightarrow>
           ''ppmFile'' \<notin> set (json_keys (json_of_obj x)))" if "x \<in> set report" for x
  proof -
    from processReport_inv4[OF r] that have i: "inv4 e x" by blast
    then have "no_path x" by (simp add: inv4_def)
    with inv4_keys(2)[OF i] json_keys_subset[of x] show ?thesis
      unfolding no_path_def by blast
  qed
  with d show ?thesis by auto
qed

lemma demo_record_json:
  "json_of_obj demo_record =
     JObject
       [(''filename'', JString ''a.png''),
        (''originalSize'', JNumber 10),
        (''originalsha256'', JString ''h1''),
        (''ppmSize'', JNumber 2000000),
        (''ppmsha256'', JString ''p1''),
        (''cTime0.4'', JNumber 100),
        (''cSpeed0.4'', JNumber 20000000),
        (''cSize0.4'', JNumber 4096),
        (''cRatio0.4'', JNumber 40960),
        (''cRatioPPM0.4'', JNumber (128 / 625)),
        (''cTime0.5'', JNumber 150),
        (''cSpeed0.5'', JNumber (40000000 / 3)),
        (''cSize0.5'', JNumber 4000),
        (''cRatio0.5'', JNumber 40000),
        (''cRatioPPM0.5'', JNumber (1 / 5)),
        (''cTimeDiff'', JNumber 50),
        (''cRatioDiff'', JNumber (- 960)),
        (''dTime0.4'', JNumber 30),
        (''dSpeed0.4'', JNumber (200000000 / 3)),
        (''roundTrip0.4'', JNumber 130),
        (''dTime0.5'', JNumber 40),
        (''dSpeed0.5'', JNumber 50000000),
        (''dTimeDiff'', JNumber 10),
        (''roundTrip0.5'', JNumber 190),
        (''roundTripDiff'', JNumber 60)]"
  by (simp add: demo_record_def json_of_obj_def json_of_val_def)

theorem report_paths_witness:
  "map_option fst (processEverything demo False [''/in/a.png''] (demo_sys script_complete))
     = Some (Inr (JArray [json_of_obj demo_record])) \<and>
   ''fullname'' \<notin> set (json_keys (json_of_obj demo_record)) \<and>
   ''dTime0.5'' \<in> set (json_keys (json_of_obj demo_record)) \<and>
   ''ppmFile'' \<notin> set (json_keys (json_of_obj demo_record))"
proof -
  from demo_report_complete obtain S
    where "processReport demo False [''/in/a.png''] (demo_sys script_complete)
             = Some (Inr [demo_record], S)"
    by auto
  then have p: "processEverything demo False [''/in/a.png''] (demo_sys script_complete)
                  = Some (Inr (JArray [json_of_obj demo_record]), S)"
    by (simp add: processEverything_def stringify_def)
  have k: "''dTime0.5'' \<in> set (json_keys (json_of_obj demo_record))"
    by (simp add: demo_record_json json_keys_def)
  from report_paths[OF p] k
  have "''fullname'' \<notin> set (json_keys (json_of_obj demo_record)) \<and>
        ''ppmFile'' \<notin> set (json_keys (json_of_obj demo_record))"
    by auto
  with p k show ?thesis by simp
qed

text \<open>
  C10. On Windows, when the Lea 0.5 decompressor fails for a file, \<open>wc -c\<close> fails on the
  missing restored file; that \<open>execSync\<close> is outside any \<open>try\<close>, so the last callback throws
  before it deletes \<open>ppmFile\<close> from the record, and the record is written with its
  \<open>ppmFile\<close>, the path of the file in the working area.
\<close>

theorem failed_restore_keeps_ppmFile:
  "map_option fst (processEverything demo True [''/in/a.png''] (demo_sys script_restore_fails)) =
     Some (Inr (JArray
       [JObject
          [(''filename'', JString ''a.png''),
           (''originalSize'', JNumber 10),
           (''originalsha256'', JString ''h1''),
           (''ppmFile'', JString ''/app/tmp/ppm/a.png.ppm''),
           (''ppmSize'', JNumber 2000000),
           (''ppmsha256'', JString ''p1''),
           (''cTime0.4'', JNumber 100),
           (''cSpeed0.4'', JNumber 20000000),
           (''cSize0.4'', JString ''4096''),
           (''cRatio0.4'', JNumber 40960),
           (''cRatioPPM0.4'', JNumber (128 / 625)),
           (''cTime0.5'', JNumber 150),
           (''cSpeed0.5'', JNumber (40000000 / 3)),
           (''cSize0.5'', JString ''4000''),
           (''cRatio0.5'', JNumber 40000),
           (''cRatioPPM0.5'', JNumber (1 / 5)),
           (''cTimeDiff'', JNumber 50),
           (''cRatioDiff'', JNumber (- 960)),
           (''dTime0.4'', JNumber 30),
           (''dSpeed0.4'', JNumber (200000000 / 3)),
           (''roundTrip0.4'', JNumber 130)]]))"
proof -
  let ?S = "\<lparr>world = (0, script_restore_fails),
             trace = [] @ [Hash ''/in/a.png'', Convert ''/app/img/a.png'' ''/app/tmp/ppm/a.png.ppm'',
                           Hash ''/app/tmp/ppm/a.png.ppm'']\<rparr>"
  from demo_bench_restore_fails[of "trace ?S"]
  obtain R S' where b: "benchmark demo True [demo_file] ?S = Some (R, S')"
    and R: "R = [[(''filename'', Str ''a.png''),
            (''originalSize'', Num (Fin 10)),
            (''originalsha256'', Str ''h1''),
            (''ppmFile'', Str ''/app/tmp/ppm/a.png.ppm''),
            (''ppmSize'', Num (Fin 2000000)), (''ppmsha256'', Str ''p1''),
            (''cTime0.4'', Num (Fin 100)), (''cSpeed0.4'', Num (Fin 20000000)),
            (''cSize0.4'', Str ''4096''),
            (''cRatio0.4'', Num (Fin 40960)),
            (''cRatioPPM0.4'', Num (Fin (128 / 625))),
            (''cTime0.5'', Num (Fin 150)),
            (''cSpeed0.5'', Num (Fin (40000000 / 3))),
            (''cSize0.5'', Str ''4000''),
            (''cRatio0.5'', Num (Fin 40000)),
            (''cRatioPPM0.5'', Num (Fin (1 / 5))),
            (''cTimeDiff'', Num (Fin 50)), (''cRatioDiff'', Num (Fin (- 960))),
            (''dTime0.4'', Num (Fin 30)),
            (''dSpeed0.4'', Num (Fin (200000000 / 3))),
            (''roundTrip0.4'', Num (Fin 130))]]"
    by auto
  from b show ?thesis
    unfolding R
    by (simp add: processEverything_def processReport_def demo_sys_def demo_getAllFiles
        stringify_def json_of_obj_def json_of_val_def)
qed

text \<open>
  The sibling path: off Windows the same failure leaves the size command succeeding, the
  last callback runs to its end and the record is written without \<open>ppmFile\<close>.
\<close>

lemma demo_bench_restore_fails_du:
  "map_option (\<lambda>st. stringify (fst st))
      (benchmark demo False [demo_file] \<lparr>world = (0, script_restore_fails_du), trace = tr\<rparr>) =
     Some (JArray
       [JObject
          [(''filename'', JString ''a.png''),
           (''originalSize'', JNumber 10),
           (''originalsha256'', JString ''h1''),
           (''ppmSize'', JNumber 2000000),
           (''ppmsha256'', JString ''p1''),
           (''cTime0.4'', JNumber 100),
           (''cSpeed0.4'', JNumber 20000000),
           (''cSize0.4'', JNumber 4096),
           (''cRatio0.4'', JNumber 40960),
           (''cRatioPPM0.4'', JNumber (128 / 625)),
           (''cTime0.5'', JNumber 150),
           (''cSpeed0.5'', JNumber (40000000 / 3)),
           (''cSize0.5'', JNumber 4000),
           (''cRatio0.5'', JNumber 40000),
           (''cRatioPPM0.5'', JNumber (1 / 5)),
           (''cTimeDiff'', JNumber 50),
           (''cRatioDiff'', JNumber (- 960)),
           (''dTime0.4'', JNumber 30),
           (''dSpeed0.4'', JNumber (200000000 / 3)),
           (''roundTrip0.4'', JNumber 130),
           (''dTime0.5'', JNumber (- 1)),
           (''dSpeed0.5'', JNull),
           (''dTimeDiff'', JNumber (- 31)),
           (''roundTrip0.5'', JNumber 149),
           (''roundTripDiff'', JNumber 19)]])"
  by (simp add: benchmark_def script_restore_fails_du_def demo_file_def demo_eval stringify_def
        json_of_obj_def json_of_val_def
      del: math_min.simps add: math_min_3)

theorem failed_restore_on_linux_drops_ppmFile:
  "map_option fst (processEverything demo False [''/in/a.png''] (demo_sys script_restore_fails_du)) =
     Some (Inr (JArray
       [JObject
          [(''filename'', JString ''a.png''),
           (''originalSize'', JNumber 10),
           (''originalsha256'', JString ''h1''),
           (''ppmSize'', JNumber 2000000),
           (''ppmsha256'', JString ''p1''),
           (''cTime0.4'', JNumber 100),
           (''cSpeed0.4'', JNumber 20000000),
           (''cSize0.4'', JNumber 4096),
           (''cRatio0.4'', JNumber 40960),
           (''cRatioPPM0.4'', JNumber (128 / 625)),
           (''cTime0.5'', JNumber 150),
           (''cSpeed0.5'', JNumber (40000000 / 3)),
           (''cSize0.5'', JNumber 4000),
           (''cRatio0.5'', JNumber 40000),
           (''cRatioPPM0.5'', JNumber (1 / 5)),
           (''cTimeDiff'', JNumber 50),
           (''cRatioDiff'', JNumber (- 960)),
           (''dTime0.4'', JNumber 30),
           (''dSpeed0.4'', JNumber (200000000 / 3)),
           (''roundTrip0.4'', JNumber 130),
           (''dTime0.5'', JNumber (- 1)),
           (''dSpeed0.5'', JNull),
           (''dTimeDiff'', JNumber (- 31)),
           (''roundTrip0.5'', JNumber 149),
           (''roundTripDiff'', JNumber 19)]]))"
proof -
  let ?S = "\<lparr>world = (0, script_restore_fails_du),
             trace = [] @ [Hash ''/in/a.png'', Convert ''/app/img/a.png'' ''/app/tmp/ppm/a.png.ppm'',
                           Hash ''/app/tmp/ppm/a.png.ppm'']\<rparr>"
  from demo_bench_restore_fails_du[of "trace ?S"]
  obtain st where b: "benchmark demo False [demo_file] ?S = Some st"
    and d: "stringify (fst st) = JArray
       [JObject
          [(''filename'', JString ''a.png''),
           (''originalSize'', JNumber 10),
           (''originalsha256'', JString ''h1''),
           (''ppmSize'', JNumber 2000000),
           (''ppmsha256'', JString ''p1''),
           (''cTime0.4'', JNumber 100),
           (''cSpeed0.4'', JNumber 20000000),
           (''cSize0.4'', JNumber 4096),
           (''cRatio0.4'', JNumber 40960),
           (''cRatioPPM0.4'', JNumber (128 / 625)),
           (''cTime0.5'', JNumber 150),
           (''cSpeed0.5'', JNumber (40000000 / 3)),
           (''cSize0.5'', JNumber 4000),
           (''cRatio0.5'', JNumber 40000),
           (''cRatioPPM0.5'', JNumber (1 / 5)),
           (''cTimeDiff'', JNumber 50),
           (''cRatioDiff'', JNumber (- 960)),
           (''dTime0.4'', JNumber 30),
           (''dSpeed0.4'', JNumber (200000000 / 3)),
           (''roundTrip0.4'', JNumber 130),
           (''dTime0.5'', JNumber (- 1)),
           (''dSpeed0.5'', JNull),
           (''dTimeDiff'', JNumber (- 31)),
           (''roundTrip0.5'', JNumber 149),
           (''roundTripDiff'', JNumber 19)]]"
    by auto
  from b d show ?thesis
    by (cases st) (simp add: processEverything_def processReport_def demo_sys_def demo_getAllFiles)
qed

text \<open>
  C4. In every record of the report, each difference the record carries is the Lea 0.5
  value minus the Lea 0.4 value of that record: the compress-time and ratio differences
  where \<open>cTimeDiff\<close> is present, the decompress-time and round-trip differences where
  \<open>dTimeDiff\<close> is present.
\<close>

theorem deltas_are_later_minus_baseline:
  assumes "processReport e w walked s = Some (Inr report, s')" and "r \<in> set report"
  shows "(''cTimeDiff'' \<in> set (keys_of r) \<longrightarrow>
            get r ''cTimeDiff'' =
              Num (js_sub (to_number e (get r ''cTime0.5'')) (to_number e (get r ''cTime0.4''))) \<and>
            get r ''cRatioDiff'' =
              Num (js_sub (to_number e (get r ''cRatio0.5'')) (to_number e (get r ''cRatio0.4'')))) \<and>
         (''dTimeDiff'' \<in> set (keys_of r) \<longrightarrow>
            get r ''dTimeDiff'' =
              Num (js_sub (to_number e (get r ''dTime0.5'')) (to_number e (get r ''dTime0.4''))) \<and>
            get r ''roundTripDiff'' =
              Num (js_sub (to_number e (get r ''roundTrip0.5''))
                     (to_number e (get r ''roundTrip0.4''))))"
proof -
  from processReport_inv4[OF assms(1)] assms(2) have "inv4 e r" by blast
  then have "diffs_c e r" "diffs_d e r" by (simp_all add: inv4_def)
  then show ?thesis unfolding diffs_c_def diffs_d_def by blast
qed

theorem deltas_witness:
  "map_option fst (processReport demo False [''/in/a.png''] (demo_sys script_complete))
     = Some (Inr [demo_record]) \<and>
   demo_record \<in> set [demo_record] \<and>
   ''cTimeDiff'' \<in> set (keys_of demo_record) \<and>
   ''dTimeDiff'' \<in> set (keys_of demo_record) \<and>
   get demo_record ''cTime0.4'' = Num (Fin 100) \<and>
   get demo_record ''cTime0.5'' = Num (Fin 150) \<and>
   get demo_record ''cTimeDiff'' = Num (js_sub (Fin 150) (Fin 100)) \<and>
   get demo_record ''cTimeDiff'' = Num (Fin 50) \<and>
   get demo_record ''cRatioDiff'' = Num (js_sub (Fin 40000) (Fin 40960)) \<and>
   get demo_record ''dTimeDiff'' = Num (js_sub (Fin 40) (Fin 30)) \<and>
   get demo_record ''roundTripDiff'' = Num (js_sub (Fin 190) (Fin 130))"
proof -
  from demo_report_complete obtain S
    where p: "processReport demo False [''/in/a.png''] (demo_sys script_complete)
             = Some (Inr [demo_record], S)"
    by auto
  have m: "demo_record \<in> set [demo_record]" by simp
  have k: "''cTimeDiff'' \<in> set (keys_of demo_record)" "''dTimeDiff'' \<in> set (keys_of demo_record)"
    by (simp_all add: keys_of_def demo_record_def)
  have g: "get demo_record ''cTime0.4'' = Num (Fin 100)"
      "get demo_record ''cTime0.5'' = Num (Fin 150)"
      "get demo_record ''cRatio0.4'' = Num (Fin 40960)"
      "get demo_record ''cRatio0.5'' = Num (Fin 40000)"
      "get demo_record ''dTime0.4'' = Num (Fin 30)"
      "get demo_record ''dTime0.5'' = Num (Fin 40)"
      "get demo_record ''roundTrip0.4'' = Num (Fin 130)"
      "get demo_record ''roundTrip0.5'' = Num (Fin 190)"
      "get demo_record ''cTimeDiff'' = Num (Fin 50)"
    by (simp_all add: get_def demo_record_def)
  from deltas_are_later_minus_baseline[OF p m] k g
  have "get demo_record ''cTimeDiff'' = Num (js_sub (Fin 150) (Fin 100))"
    and "get demo_record ''cRatioDiff'' = Num (js_sub (Fin 40000) (Fin 40960))"
    and "get demo_record ''dTimeDiff'' = Num (js_sub (Fin 40) (Fin 30))"
    and "get demo_record ''roundTripDiff'' = Num (js_sub (Fin 190) (Fin 130))"
    by (simp_all add: to_number_def)
  with p m k g show ?thesis by simp
qed

section \<open>A run in which every size command returns\<close>



























section \<open>The schema of the written report\<close>








lemma steady_simps [simp]:
  "dateNow steady = (\<lambda>t. t)" "run steady = steady_run" "dirname steady = ''/app''"
  "parseInt steady = demo_number" "strToNumber steady = demo_number"
  "statSize steady = (\<lambda>p w. map_option fst (map_of demo_table p))"
  "sha256 steady = (\<lambda>p w. map_option snd (map_of demo_table p))"
  "linkFile steady = (\<lambda>src dst w. Some w)" "copyFile steady = (\<lambda>src dst w. Some w)"
  "gmWrite steady = (\<lambda>src dst w. w)"
  by (simp_all add: steady_def)







end
